theory Spec2Isabelle
  imports Complex_Main
begin

section \<open>Data model\<close>

text \<open>
  The scripts work on pandas data frames of Python floats. Prices are taken as reals
  (every input value finite); a NaN that the indicator code produces itself (the shifted
  close of the first row, an unfilled rolling window) is the value \<open>None\<close> of an option.
  The row labels of a frame (its \<open>time\<close> index) are integers.
\<close>

text \<open>
  \<open>ValueError\<close> is the exception of the column check and of the pandas argument checks;
  \<open>NonScalarLabel\<close> is explained with the label lookups of the trade loop.
\<close>

datatype error = ValueError | NonScalarLabel

record candle =
  time :: int
  "open" :: real
  high :: real
  low :: real
  close :: real

text \<open>
  A frame as \<open>backtest_vectorized\<close> receives it: the names of its columns and its rows.
  The rows carry the values under \<open>open\<close>, \<open>high\<close>, \<open>low\<close>, \<open>close\<close>; they are read only
  after the check that these columns exist. The \<open>volume\<close> column is required but never read.
\<close>

record frame =
  columns :: "string list"
  rows :: "candle list"

datatype side = BUY | SELL

section \<open>Indicators (check\_accuracy.py, the same text in optimize\_fixed.py)\<close>

text \<open>\<open>Series.shift(1)\<close>: every value moves one row down, the first row is NaN.\<close>

definition shift1 :: "real list \<Rightarrow> real option list" where
  "shift1 xs = take (length xs) (None # map Some xs)"

text \<open>\<open>abs(a - b)\<close> on one row, NaN when the shifted value is NaN.\<close>

definition abs_diff :: "real \<Rightarrow> real option \<Rightarrow> real option" where
  "abs_diff a p = map_option (\<lambda>c. \<bar>a - c\<bar>) p"

text \<open>\<open>df[['hl', 'hc', 'lc']].max(axis=1)\<close> on one row: the maximum of the values that are not NaN.\<close>

definition max_skipna :: "real \<Rightarrow> real option \<Rightarrow> real option \<Rightarrow> real" where
  "max_skipna hl hc lc =
     (let m = (case hc of None \<Rightarrow> hl | Some x \<Rightarrow> max hl x)
      in case lc of None \<Rightarrow> m | Some y \<Rightarrow> max m y)"

definition tr_col :: "candle list \<Rightarrow> real list" where
  "tr_col df =
     (let hl = map (\<lambda>r. high r - low r) df;
          prev = shift1 (map close df);
          hc = map2 abs_diff (map high df) prev;
          lc = map2 abs_diff (map low df) prev
      in map2 (\<lambda>a (b, c). max_skipna a b c) hl (zip hc lc))"

text \<open>
  \<open>Series.rolling(window=w).mean()\<close>: at row \<open>i\<close> the mean of the \<open>w\<close> values ending at \<open>i\<close>,
  NaN while fewer than \<open>w\<close> rows are there (and for an empty window).
\<close>

definition rolling_mean :: "nat \<Rightarrow> real list \<Rightarrow> real option list" where
  "rolling_mean w xs =
     map (\<lambda>i. if w = 0 \<or> i + 1 < w then None
               else Some (sum_list (take w (drop (i + 1 - w) xs)) / real w))
         [0..<length xs]"

text \<open>pandas refuses a negative window with a ValueError.\<close>

definition calculate_atr :: "candle list \<Rightarrow> int \<Rightarrow> error + real option list" where
  "calculate_atr df period =
     (if period < 0 then Inl ValueError
      else Inr (rolling_mean (nat period) (tr_col df)))"

text \<open>
  \<open>Series.ewm(span=span, adjust=False).mean()\<close>: pandas walks the series once, carrying
  the last weighted value \<open>w\<close>; with \<open>alpha = 2 / (span + 1)\<close> the next value is
  \<open>(1 - alpha) * w + alpha * x\<close>. A span below 1 is refused with a ValueError.
\<close>

fun ewm_rec :: "real \<Rightarrow> real \<Rightarrow> real list \<Rightarrow> real list" where
  "ewm_rec alpha w [] = []"
| "ewm_rec alpha w (x # xs) =
     (let w' = (1 - alpha) * w + alpha * x in w' # ewm_rec alpha w' xs)"

definition ewm_mean :: "int \<Rightarrow> real list \<Rightarrow> error + real list" where
  "ewm_mean spn xs =
     (if spn < 1 then Inl ValueError
      else Inr (case xs of [] \<Rightarrow> []
                | x # xs' \<Rightarrow> x # ewm_rec (2 / (real_of_int spn + 1)) x xs'))"

record ema_columns =
  EMA_fast :: "real list"
  EMA_slow :: "real list"
  EMA_lower :: "real list"
  EMA_upper :: "real list"

definition compute_emas :: "candle list \<Rightarrow> int \<Rightarrow> int \<Rightarrow> error + ema_columns" where
  "compute_emas df fast_period slow_period =
     (case ewm_mean fast_period (map close df) of
        Inl e \<Rightarrow> Inl e
      | Inr f \<Rightarrow>
         (case ewm_mean slow_period (map close df) of
            Inl e \<Rightarrow> Inl e
          | Inr s \<Rightarrow>
              Inr \<lparr>EMA_fast = f, EMA_slow = s,
                   EMA_lower = map2 min f s, EMA_upper = map2 max f s\<rparr>))"

section \<open>Pattern detection\<close>

subsection \<open>check\_accuracy.py: fixed thresholds\<close>

definition is_bearish_hammer :: "candle \<Rightarrow> bool" where
  "is_bearish_hammer row =
     (if close row \<ge> open row then False
      else
        let body = open row - close row;
            upper_shadow = high row - open row;
            lower_shadow = close row - low row
        in if lower_shadow > 0.65 * body then False
           else if upper_shadow < 1.5 * body then False
           else True)"

definition is_bullish_hammer :: "candle \<Rightarrow> bool" where
  "is_bullish_hammer row =
     (if close row \<le> open row then False
      else
        let body = close row - open row;
            upper_shadow = high row - close row;
            lower_shadow = open row - low row
        in if upper_shadow > 0.65 * body then False
           else if lower_shadow < 1.5 * body then False
           else True)"

subsection \<open>optimize\_fixed.py: thresholds as arguments\<close>

definition is_bearish_hammer_p :: "candle \<Rightarrow> real \<Rightarrow> real \<Rightarrow> bool" where
  "is_bearish_hammer_p row max_lower_shadow_factor min_upper_shadow_ratio =
     (if close row \<ge> open row then False
      else
        let body = open row - close row;
            upper_shadow = high row - open row;
            lower_shadow = close row - low row
        in if lower_shadow > max_lower_shadow_factor * body then False
           else if upper_shadow < min_upper_shadow_ratio * body then False
           else True)"

definition is_bullish_hammer_p :: "candle \<Rightarrow> real \<Rightarrow> real \<Rightarrow> bool" where
  "is_bullish_hammer_p row max_upper_shadow_factor min_lower_shadow_ratio =
     (if close row \<le> open row then False
      else
        let body = close row - open row;
            upper_shadow = high row - close row;
            lower_shadow = open row - low row
        in if upper_shadow > max_upper_shadow_factor * body then False
           else if lower_shadow < min_lower_shadow_ratio * body then False
           else True)"

section \<open>The trade loop of check\_accuracy.py\<close>

record trade =
  entry_time :: int
  entry_price :: real
  exit_time :: int
  exit_price :: real
  trade_type :: side
  profit :: real
  profit_pct :: "real option"
  hit_tp :: bool
  sl :: real
  tp :: real
  candles_held :: int

text \<open>\<open>atr > 0\<close> on a float that may be NaN: a comparison with NaN is false.\<close>

fun gt0 :: "real option \<Rightarrow> bool" where
  "gt0 None = False"
| "gt0 (Some a) = (a > 0)"

text \<open>
  The \<open>for ts, future_row in future_data.iterrows()\<close> loops. The result is
  \<open>(hit_tp, hit_sl, exit_idx)\<close> as the loop leaves them; \<open>exit_idx\<close> is the label of the row
  at which the loop broke.
\<close>

fun scan_buy :: "real \<Rightarrow> real \<Rightarrow> candle list \<Rightarrow> bool \<times> bool \<times> int option" where
  "scan_buy tp_level sl_level [] = (False, False, None)"
| "scan_buy tp_level sl_level (future_row # rest) =
     (if high future_row \<ge> tp_level then (True, False, Some (time future_row))
      else if low future_row \<le> sl_level then (False, True, Some (time future_row))
      else scan_buy tp_level sl_level rest)"

fun scan_sell :: "real \<Rightarrow> real \<Rightarrow> candle list \<Rightarrow> bool \<times> bool \<times> int option" where
  "scan_sell tp_level sl_level [] = (False, False, None)"
| "scan_sell tp_level sl_level (future_row # rest) =
     (if low future_row \<le> tp_level then (True, False, Some (time future_row))
      else if high future_row \<ge> sl_level then (False, True, Some (time future_row))
      else scan_sell tp_level sl_level rest)"

text \<open>\<open>df.iloc[i + 1 : i + 100]\<close>: the 99 rows after row \<open>i\<close>, fewer at the end of the frame.\<close>

definition future_data :: "candle list \<Rightarrow> nat \<Rightarrow> candle list" where
  "future_data df i = take 99 (drop (i + 1) df)"

text \<open>
  \<open>df.loc[exit_idx, "close"]\<close> and \<open>df.index.get_loc(exit_idx)\<close> look a row up by its label.
  With one row under the label they give that row's close and its position. With several
  rows under it pandas gives a Series and a slice or mask in place of the two scalars, and
  the program raises in that round or later: a TypeError from \<open>exit_pos - i\<close> on a slice, or
  a ValueError when the statistics compare a column that holds a Series. The model does
  not tell these apart: it stops at the lookup with the one value \<open>NonScalarLabel\<close>, which
  stands for a run that ends in such an exception.
\<close>

definition loc_close :: "candle list \<Rightarrow> int \<Rightarrow> error + real" where
  "loc_close df ts =
     (case filter (\<lambda>r. time r = ts) df of
        [r] \<Rightarrow> Inr (close r)
      | _ \<Rightarrow> Inl NonScalarLabel)"

definition get_loc :: "candle list \<Rightarrow> int \<Rightarrow> error + nat" where
  "get_loc df ts =
     (case filter (\<lambda>j. time (df ! j) = ts) [0..<length df] of
        [j] \<Rightarrow> Inr j
      | _ \<Rightarrow> Inl NonScalarLabel)"

text \<open>
  \<open>profit_pct = (profit / entry) * 100\<close> on numpy floats: a zero entry gives an infinity or
  NaN, here \<open>None\<close>.
\<close>

definition pct_of :: "real \<Rightarrow> real \<Rightarrow> real option" where
  "pct_of p entry = (if entry = 0 then None else Some (p / entry * 100))"

text \<open>The body of \<open>if row["buy_signal"]:\<close> for the row at position \<open>i\<close>.\<close>

definition buy_branch ::
  "candle list \<Rightarrow> real option list \<Rightarrow> bool \<Rightarrow> nat \<Rightarrow> trade list \<Rightarrow> error + trade list" where
  "buy_branch df atrs use_atr i trades =
     (let row = df ! i;
          entry = close row;
          atr = atrs ! i;
          sl_level = (if use_atr \<and> gt0 atr then entry - 1.0 * the atr else entry - 5);
          tp_level = (if use_atr \<and> gt0 atr then entry + 2.0 * the atr else entry + 10)
      in case scan_buy tp_level sl_level (future_data df i) of
           (hit, hit_sl, None) \<Rightarrow> Inr trades
         | (hit, hit_sl, Some exit_idx) \<Rightarrow>
             (case loc_close df exit_idx of
                Inl e \<Rightarrow> Inl e
              | Inr exit_p \<Rightarrow>
                 (let p = (if hit then exit_p - entry else - (entry - exit_p))
                  in case get_loc df exit_idx of
                       Inl e \<Rightarrow> Inl e
                     | Inr exit_pos \<Rightarrow>
                         Inr (trades @
                           [\<lparr>entry_time = time row, entry_price = entry,
                             exit_time = exit_idx, exit_price = exit_p, trade_type = BUY,
                             profit = p, profit_pct = pct_of p entry, hit_tp = hit,
                             sl = sl_level, tp = tp_level,
                             candles_held = int exit_pos - int i\<rparr>]))))"

text \<open>The body of \<open>elif row["sell_signal"]:\<close>.\<close>

definition sell_branch ::
  "candle list \<Rightarrow> real option list \<Rightarrow> bool \<Rightarrow> nat \<Rightarrow> trade list \<Rightarrow> error + trade list" where
  "sell_branch df atrs use_atr i trades =
     (let row = df ! i;
          entry = close row;
          atr = atrs ! i;
          sl_level = (if use_atr \<and> gt0 atr then entry + 2.0 * the atr else entry + 10);
          tp_level = (if use_atr \<and> gt0 atr then entry - 4.0 * the atr else entry - 20)
      in case scan_sell tp_level sl_level (future_data df i) of
           (hit, hit_sl, None) \<Rightarrow> Inr trades
         | (hit, hit_sl, Some exit_idx) \<Rightarrow>
             (case loc_close df exit_idx of
                Inl e \<Rightarrow> Inl e
              | Inr exit_p \<Rightarrow>
                 (let p = (if hit then entry - exit_p else - (exit_p - entry))
                  in case get_loc df exit_idx of
                       Inl e \<Rightarrow> Inl e
                     | Inr exit_pos \<Rightarrow>
                         Inr (trades @
                           [\<lparr>entry_time = time row, entry_price = entry,
                             exit_time = exit_idx, exit_price = exit_p, trade_type = SELL,
                             profit = p, profit_pct = pct_of p entry, hit_tp = hit,
                             sl = sl_level, tp = tp_level,
                             candles_held = int exit_pos - int i\<rparr>]))))"

text \<open>One round of \<open>for i in range(100, len(df))\<close>; the signals are the two patterns.\<close>

definition loop_body ::
  "candle list \<Rightarrow> real option list \<Rightarrow> bool \<Rightarrow> nat \<Rightarrow> trade list \<Rightarrow> error + trade list" where
  "loop_body df atrs use_atr i trades =
     (if is_bullish_hammer (df ! i) then buy_branch df atrs use_atr i trades
      else if is_bearish_hammer (df ! i) then sell_branch df atrs use_atr i trades
      else Inr trades)"

text \<open>A \<open>for\<close> loop over positions whose body may raise: the first error ends it.\<close>

fun run_loop :: "(nat \<Rightarrow> 'a \<Rightarrow> error + 'a) \<Rightarrow> nat list \<Rightarrow> 'a \<Rightarrow> error + 'a" where
  "run_loop body [] s = Inr s"
| "run_loop body (i # js) s =
     (case body i s of Inl e \<Rightarrow> Inl e | Inr s' \<Rightarrow> run_loop body js s')"

definition required_cols :: "string list" where
  "required_cols = [''open'', ''high'', ''low'', ''close'', ''volume'']"

text \<open>
  \<open>backtest_vectorized\<close> up to the end of its trade loop: the column check, the indicators
  (the EMA columns are computed and not read again, there is no trend filter), the loop.
\<close>

definition backtest_trades :: "frame \<Rightarrow> bool \<Rightarrow> error + trade list" where
  "backtest_trades fr use_atr =
     (if \<not> list_all (\<lambda>col. col \<in> set (columns fr)) required_cols then Inl ValueError
      else
        case compute_emas (rows fr) 9 15 of
          Inl e \<Rightarrow> Inl e
        | Inr emas \<Rightarrow>
           (case calculate_atr (rows fr) 14 of
              Inl e \<Rightarrow> Inl e
            | Inr atrs \<Rightarrow>
                run_loop (loop_body (rows fr) atrs use_atr) [100..<length (rows fr)] []))"

section \<open>The statistics of check\_accuracy.py\<close>

record stats =
  total_trades :: nat
  win_count :: nat
  loss_count :: nat
  win_rate :: real
  total_profit :: real
  avg_win :: real
  avg_loss :: real
  profit_factor :: real
  max_win :: real
  max_loss :: real
  avg_candles_held :: real
  total_return_pct :: "real option"
  trades :: "trade list"
  total_bullish_hammers :: nat
  total_bearish_hammers :: nat
  total_bullish_buy_signals :: nat
  total_bearish_sell_signals :: nat
  buy_trades :: nat
  sell_trades :: nat
  buy_wins :: nat
  sell_wins :: nat

definition mean :: "real list \<Rightarrow> real" where
  "mean xs = sum_list xs / real (length xs)"

text \<open>
  The block under \<open># Calculate statistics\<close>, for a trade list that is not empty.
  \<open>total_return_pct\<close> divides numpy floats: a zero mean entry price gives an infinity or NaN,
  here \<open>None\<close>.
\<close>

definition calc_stats :: "candle list \<Rightarrow> trade list \<Rightarrow> stats" where
  "calc_stats df trades_df =
     (let winners = filter (\<lambda>t. profit t > 0) trades_df;
          losers = filter (\<lambda>t. profit t \<le> 0) trades_df;
          buys = filter (\<lambda>t. trade_type t = BUY) trades_df;
          sells = filter (\<lambda>t. trade_type t = SELL) trades_df;
          n = length trades_df;
          mean_entry = sum_list (map entry_price trades_df) / real n
      in \<lparr>total_trades = n,
          win_count = length winners,
          loss_count = length losers,
          win_rate = (if n > 0 then real (length winners) / real n * 100 else 0),
          total_profit = sum_list (map profit trades_df),
          avg_win = (if length winners > 0 then mean (map profit winners) else 0),
          avg_loss = (if length losers > 0 then \<bar>mean (map profit losers)\<bar> else 0),
          profit_factor =
            (if length losers > 0 \<and> sum_list (map profit losers) \<noteq> 0
             then sum_list (map profit winners) / \<bar>sum_list (map profit losers)\<bar>
             else 0),
          max_win = (if length winners > 0 then Max (set (map profit winners)) else 0),
          max_loss = (if length losers > 0 then Min (set (map profit losers)) else 0),
          avg_candles_held = mean (map (\<lambda>t. real_of_int (candles_held t)) trades_df),
          total_return_pct =
            (if mean_entry = 0 then None
             else Some (sum_list (map profit trades_df) / mean_entry * 100)),
          trades = trades_df,
          total_bullish_hammers = length (filter is_bullish_hammer df),
          total_bearish_hammers = length (filter is_bearish_hammer df),
          total_bullish_buy_signals = length (filter is_bullish_hammer df),
          total_bearish_sell_signals = length (filter is_bearish_hammer df),
          buy_trades = length buys,
          sell_trades = length sells,
          buy_wins = length (filter (\<lambda>t. profit t > 0) buys),
          sell_wins = length (filter (\<lambda>t. profit t > 0) sells)\<rparr>)"

text \<open>\<open>backtest_vectorized\<close>: \<open>None\<close> is the empty dict returned when no trade was generated.\<close>

definition backtest_vectorized :: "frame \<Rightarrow> bool \<Rightarrow> error + stats option" where
  "backtest_vectorized fr use_atr =
     (case backtest_trades fr use_atr of
        Inl e \<Rightarrow> Inl e
      | Inr ts \<Rightarrow> if ts = [] then Inr None else Inr (Some (calc_stats (rows fr) ts)))"

section \<open>optimize\_fixed.py: the backtest with parameters\<close>

record trade_p =
  type_p :: side
  entry_p :: real
  profit_p :: real
  hit_tp_p :: bool

text \<open>The scans of \<open>backtest_with_params\<close> leave \<open>(exit_idx, hit_tp)\<close>.\<close>

fun scan_buy_p :: "real \<Rightarrow> real \<Rightarrow> candle list \<Rightarrow> int option \<times> bool" where
  "scan_buy_p tp_level sl_level [] = (None, False)"
| "scan_buy_p tp_level sl_level (future_row # rest) =
     (if high future_row \<ge> tp_level then (Some (time future_row), True)
      else if low future_row \<le> sl_level then (Some (time future_row), False)
      else scan_buy_p tp_level sl_level rest)"

fun scan_sell_p :: "real \<Rightarrow> real \<Rightarrow> candle list \<Rightarrow> int option \<times> bool" where
  "scan_sell_p tp_level sl_level [] = (None, False)"
| "scan_sell_p tp_level sl_level (future_row # rest) =
     (if low future_row \<le> tp_level then (Some (time future_row), True)
      else if high future_row \<ge> sl_level then (Some (time future_row), False)
      else scan_sell_p tp_level sl_level rest)"

record params =
  buy_sl_mult :: real
  buy_tp_mult :: real
  sell_sl_mult :: real
  sell_tp_mult :: real
  max_lower_shadow :: real
  min_upper_shadow :: real

text \<open>
  One round of \<open>for i in range(100, len(df))\<close> in \<open>backtest_with_params\<close>; its arguments
  are gathered in the record \<open>params\<close>. A round that meets \<open>continue\<close> leaves the list as it is.
\<close>

definition loop_body_p ::
  "candle list \<Rightarrow> real option list \<Rightarrow> params \<Rightarrow> nat \<Rightarrow> trade_p list \<Rightarrow> trade_p list" where
  "loop_body_p df atrs ps i trade_list =
     (let row = df ! i in
      if is_bullish_hammer_p row (max_lower_shadow ps) (min_upper_shadow ps) then
        (let entry = close row; atr = atrs ! i in
         if gt0 atr then
           (let sl_level = entry - buy_sl_mult ps * the atr;
                tp_level = entry + buy_tp_mult ps * the atr
            in case scan_buy_p tp_level sl_level (future_data df i) of
                 (None, hit) \<Rightarrow> trade_list
               | (Some exit_idx, hit) \<Rightarrow>
                   trade_list @
                     [\<lparr>type_p = BUY, entry_p = entry,
                       profit_p = (if hit then buy_tp_mult ps * the atr
                                   else - (buy_sl_mult ps * the atr)),
                       hit_tp_p = hit\<rparr>])
         else trade_list)
      else if is_bearish_hammer_p row (max_lower_shadow ps) (min_upper_shadow ps) then
        (let entry = close row; atr = atrs ! i in
         if gt0 atr then
           (let sl_level = entry + sell_sl_mult ps * the atr;
                tp_level = entry - sell_tp_mult ps * the atr
            in case scan_sell_p tp_level sl_level (future_data df i) of
                 (None, hit) \<Rightarrow> trade_list
               | (Some exit_idx, hit) \<Rightarrow>
                   trade_list @
                     [\<lparr>type_p = SELL, entry_p = entry,
                       profit_p = (if hit then sell_tp_mult ps * the atr
                                   else - (sell_sl_mult ps * the atr)),
                       hit_tp_p = hit\<rparr>])
         else trade_list)
      else trade_list)"

definition trades_with_params :: "frame \<Rightarrow> params \<Rightarrow> error + trade_p list" where
  "trades_with_params fr ps =
     (if \<not> list_all (\<lambda>col. col \<in> set (columns fr)) required_cols then Inl ValueError
      else
        case compute_emas (rows fr) 9 15 of
          Inl e \<Rightarrow> Inl e
        | Inr emas \<Rightarrow>
           (case calculate_atr (rows fr) 14 of
              Inl e \<Rightarrow> Inl e
            | Inr atrs \<Rightarrow>
                Inr (foldl (\<lambda>trade_list i. loop_body_p (rows fr) atrs ps i trade_list) []
                       [100..<length (rows fr)])))"

text \<open>A float that may be \<open>float('inf')\<close>.\<close>

datatype xreal = Fin real | PInf

record stats_p =
  total_trades_p :: nat
  win_rate_p :: real
  profit_factor_p :: xreal
  total_return_p :: real
  avg_win_p :: real
  avg_loss_p :: real
  total_profit_p :: "real option"
  winners_p :: "nat option"
  losers_p :: "nat option"

text \<open>
  The statistics of \<open>backtest_with_params\<close>. The dict returned for an empty trade list has
  no \<open>total_profit\<close>, \<open>winners\<close> and \<open>losers\<close> keys: \<open>None\<close> here.
\<close>

definition calc_stats_p :: "trade_p list \<Rightarrow> stats_p" where
  "calc_stats_p trades_df =
     (if trades_df = [] then
        \<lparr>total_trades_p = 0, win_rate_p = 0, profit_factor_p = Fin 0, total_return_p = 0,
         avg_win_p = 0, avg_loss_p = 0, total_profit_p = None, winners_p = None,
         losers_p = None\<rparr>
      else
        let winners = filter (\<lambda>t. profit_p t > 0) trades_df;
            losers = filter (\<lambda>t. profit_p t \<le> 0) trades_df;
            n = length trades_df;
            total = sum_list (map profit_p trades_df);
            wsum = sum_list (map profit_p winners);
            lsum = sum_list (map profit_p losers)
        in \<lparr>total_trades_p = n,
            win_rate_p = (if n > 0 then real (length winners) / real n * 100 else 0),
            profit_factor_p =
              (if length losers > 0 \<and> lsum \<noteq> 0 then Fin (wsum / \<bar>lsum\<bar>)
               else if total > 0 then PInf else Fin 0),
            total_return_p =
              (if \<bar>lsum\<bar> > 0 then wsum / \<bar>lsum\<bar> * 100
               else if total > 0 then 100 else 0),
            avg_win_p = (if length winners > 0 then mean (map profit_p winners) else 0),
            avg_loss_p = (if length losers > 0 then \<bar>mean (map profit_p losers)\<bar> else 0),
            total_profit_p = Some total,
            winners_p = Some (length winners),
            losers_p = Some (length losers)\<rparr>)"

definition backtest_with_params :: "frame \<Rightarrow> params \<Rightarrow> error + stats_p" where
  "backtest_with_params fr ps =
     (case trades_with_params fr ps of
        Inl e \<Rightarrow> Inl e
      | Inr ts \<Rightarrow> Inr (calc_stats_p ts))"

section \<open>finalBot.py: the live bot\<close>

text \<open>The patterns read their thresholds from the global configuration \<open>CFG\<close>, passed here as an argument, and refuse small bodies.\<close>

record OandaConfig =
  cfg_max_lower_shadow_factor :: real
  cfg_min_upper_shadow_ratio :: real
  cfg_buy_sl_mult :: real
  cfg_buy_tp_mult :: real
  cfg_sell_sl_mult :: real
  cfg_sell_tp_mult :: real

definition CFG :: OandaConfig where
  "CFG = \<lparr>cfg_max_lower_shadow_factor = 0.4, cfg_min_upper_shadow_ratio = 2.5,
          cfg_buy_sl_mult = 1.0, cfg_buy_tp_mult = 1.5, cfg_sell_sl_mult = 1.5, cfg_sell_tp_mult = 3.0\<rparr>"

definition is_bearish_hammer_bot :: "OandaConfig \<Rightarrow> candle \<Rightarrow> bool" where
  "is_bearish_hammer_bot cfg row =
     (if close row \<ge> open row then False
      else
        let body = open row - close row in
        if body < 0.0001 then False
        else
          let upper_shadow = high row - open row;
              lower_shadow = close row - low row
          in if lower_shadow > cfg_max_lower_shadow_factor cfg * body then False
             else if upper_shadow < cfg_min_upper_shadow_ratio cfg * body then False
             else True)"

definition is_bullish_hammer_bot :: "OandaConfig \<Rightarrow> candle \<Rightarrow> bool" where
  "is_bullish_hammer_bot cfg row =
     (if close row \<le> open row then False
      else
        let body = close row - open row in
        if body < 0.0001 then False
        else
          let upper_shadow = high row - close row;
              lower_shadow = open row - low row
          in if upper_shadow > cfg_max_lower_shadow_factor cfg * body then False
             else if lower_shadow < cfg_min_upper_shadow_ratio cfg * body then False
             else True)"

text \<open>The row the bot looks at: the last completed candle with its EMA envelope.\<close>

record bot_row =
  candle_of :: candle
  ema_lower :: real
  ema_upper :: real

definition is_uptrend :: "bot_row \<Rightarrow> bool" where
  "is_uptrend row = (close (candle_of row) > ema_lower row)"

definition is_downtrend :: "bot_row \<Rightarrow> bool" where
  "is_downtrend row = (close (candle_of row) < ema_upper row)"

text \<open>
  The global table \<open>active_positions\<close>, passed and returned. The timestamp of an entry is the
  clock reading \<open>now\<close> at the call.
\<close>

record position =
  pos_type :: side
  pos_entry :: real
  pos_timestamp :: real

type_synonym positions = "string \<Rightarrow> position option"

definition get_position_key :: "string \<Rightarrow> string \<Rightarrow> string" where
  "get_position_key instrument timeframe = instrument @ ''_'' @ timeframe"

definition has_active_position :: "positions \<Rightarrow> string \<Rightarrow> string \<Rightarrow> bool" where
  "has_active_position active_positions instrument timeframe =
     (get_position_key instrument timeframe \<in> dom active_positions)"

definition add_active_position ::
  "positions \<Rightarrow> string \<Rightarrow> string \<Rightarrow> side \<Rightarrow> real \<Rightarrow> real \<Rightarrow> positions" where
  "add_active_position active_positions instrument timeframe tt entry now =
     active_positions(get_position_key instrument timeframe \<mapsto>
       \<lparr>pos_type = tt, pos_entry = entry, pos_timestamp = now\<rparr>)"

definition remove_active_position :: "positions \<Rightarrow> string \<Rightarrow> string \<Rightarrow> positions" where
  "remove_active_position active_positions instrument timeframe =
     (if get_position_key instrument timeframe \<in> dom active_positions
      then active_positions(get_position_key instrument timeframe := None)
      else active_positions)"

text \<open>
  \<open>calculate_dynamic_sl_tp\<close>; \<open>rnd\<close> stands for Python's built-in \<open>round(x, ndigits)\<close>.
  The result is \<open>(sl_price, tp_price, sl_distance, tp_distance)\<close>.
\<close>

definition calculate_dynamic_sl_tp ::
  "OandaConfig \<Rightarrow> (real \<Rightarrow> int \<Rightarrow> real) \<Rightarrow> real \<Rightarrow> real \<Rightarrow> int \<Rightarrow> side
     \<Rightarrow> real \<times> real \<times> real \<times> real" where
  "calculate_dynamic_sl_tp cfg rnd entry atr precision tt =
     (case tt of
        BUY \<Rightarrow>
          (let sl_distance = rnd (cfg_buy_sl_mult cfg * atr) precision;
               tp_distance = rnd (cfg_buy_tp_mult cfg * atr) precision
           in (rnd (entry - sl_distance) precision, rnd (entry + tp_distance) precision,
               sl_distance, tp_distance))
      | SELL \<Rightarrow>
          (let sl_distance = rnd (cfg_sell_sl_mult cfg * atr) precision;
               tp_distance = rnd (cfg_sell_tp_mult cfg * atr) precision
           in (rnd (entry + sl_distance) precision, rnd (entry - tp_distance) precision,
               sl_distance, tp_distance)))"

text \<open>
  \<open>place_market_buy_with_sl_tp\<close> and \<open>place_market_sell_with_sl_tp\<close>: the order is posted,
  \<open>status_code\<close> is the broker's answer. On 201 the position is recorded and the result is
  \<open>True\<close>. The units, the two price levels and the ATR only go into the request and the
  log line, so they are no arguments here. A request that raises leaves the table as any
  answer other than 201 does.
\<close>

definition place_market_buy_with_sl_tp ::
  "positions \<Rightarrow> string \<Rightarrow> string \<Rightarrow> real \<Rightarrow> nat \<Rightarrow> real \<Rightarrow> positions \<times> bool" where
  "place_market_buy_with_sl_tp active_positions instrument timeframe entry status_code now =
     (if status_code = 201
      then (add_active_position active_positions instrument timeframe BUY entry now, True)
      else (active_positions, False))"

definition place_market_sell_with_sl_tp ::
  "positions \<Rightarrow> string \<Rightarrow> string \<Rightarrow> real \<Rightarrow> nat \<Rightarrow> real \<Rightarrow> positions \<times> bool" where
  "place_market_sell_with_sl_tp active_positions instrument timeframe entry status_code now =
     (if status_code = 201
      then (add_active_position active_positions instrument timeframe SELL entry now, True)
      else (active_positions, False))"

text \<open>
  What one polling round of \<open>run_for_instrument_and_timeframe\<close> receives from outside once
  a new completed candle is there: the candle, the ATR, the broker's answer to an order
  and the clock.
\<close>

record round_input =
  last_row :: bot_row
  atr_value :: real
  status_code :: nat
  clock :: real

text \<open>
  The round from \<open># Skip if position exists\<close> on. The result is the table and the side of
  the order the broker accepted in this round, if any.
\<close>

definition poll_round ::
  "OandaConfig \<Rightarrow> (real \<Rightarrow> int \<Rightarrow> real) \<Rightarrow> string \<Rightarrow> string \<Rightarrow> int \<Rightarrow> positions
     \<Rightarrow> round_input \<Rightarrow> positions \<times> side option" where
  "poll_round cfg rnd instrument timeframe precision active_positions inp =
     (let last = last_row inp in
      if has_active_position active_positions instrument timeframe then (active_positions, None)
      else if is_bearish_hammer_bot cfg (candle_of last) \<and> is_downtrend last then
        (let entry = close (candle_of last) in
         case calculate_dynamic_sl_tp cfg rnd entry (atr_value inp) precision SELL of
           (sl_price, tp_price, sl_dist, tp_dist) \<Rightarrow>
             if sl_price \<le> entry \<and> tp_price < entry then
               (case place_market_sell_with_sl_tp active_positions instrument timeframe entry
                       (status_code inp) (clock inp) of
                  (ap, ok) \<Rightarrow> (ap, if ok then Some SELL else None))
             else (active_positions, None))
      else if is_bullish_hammer_bot cfg (candle_of last) \<and> is_uptrend last then
        (let entry = close (candle_of last) in
         case calculate_dynamic_sl_tp cfg rnd entry (atr_value inp) precision BUY of
           (sl_price, tp_price, sl_dist, tp_dist) \<Rightarrow>
             if sl_price < entry \<and> tp_price > entry then
               (case place_market_buy_with_sl_tp active_positions instrument timeframe entry
                       (status_code inp) (clock inp) of
                  (ap, ok) \<Rightarrow> (ap, if ok then Some BUY else None))
             else (active_positions, None))
      else (active_positions, None))"

text \<open>
  The rounds of one instrument and timeframe in sequence, with the orders accepted on
  the way.
\<close>

fun live_run ::
  "OandaConfig \<Rightarrow> (real \<Rightarrow> int \<Rightarrow> real) \<Rightarrow> string \<Rightarrow> string \<Rightarrow> int \<Rightarrow> positions
     \<Rightarrow> round_input list \<Rightarrow> positions \<times> side list" where
  "live_run cfg rnd instrument timeframe precision ap [] = (ap, [])"
| "live_run cfg rnd instrument timeframe precision ap (inp # inps) =
     (case poll_round cfg rnd instrument timeframe precision ap inp of
        (ap', opened) \<Rightarrow>
          (case live_run cfg rnd instrument timeframe precision ap' inps of
             (ap'', rest) \<Rightarrow>
               (ap'', (case opened of None \<Rightarrow> [] | Some s \<Rightarrow> [s]) @ rest)))"

section \<open>Reference formulas of the specification\<close>

text \<open>
  The true range as the specification words it: at the first row the high-low range, at
  every later row the largest of the high-low range and the two distances to the
  previous close.
\<close>

definition true_range_spec :: "candle list \<Rightarrow> nat \<Rightarrow> real" where
  "true_range_spec df i =
     (if i = 0 then high (df ! 0) - low (df ! 0)
      else max (max (high (df ! i) - low (df ! i)) \<bar>high (df ! i) - close (df ! (i - 1))\<bar>)
               \<bar>low (df ! i) - close (df ! (i - 1))\<bar>)"

text \<open>
  The candle invariant of the specification: the low is at most the open and the close,
  and these are at most the high.
\<close>

definition candle_invariant_spec :: "candle \<Rightarrow> bool" where
  "candle_invariant_spec c =
     (low c \<le> min (open c) (close c) \<and> max (open c) (close c) \<le> high c)"

section \<open>Concrete inputs\<close>

text \<open>
  The trade loops start at position 100, so every frame that yields a trade has at least
  102 rows. The frames below begin with 100 quiet rows labelled 0 to 99 and end with a
  few rows that carry the signal and its exit.
\<close>

definition calm :: "nat \<Rightarrow> candle" where
  "calm k = \<lparr>time = int k, open = 100, high = 100.5, low = 99.5, close = 100\<rparr>"

definition flat :: "nat \<Rightarrow> candle" where
  "flat k = \<lparr>time = int k, open = 100, high = 100, low = 100, close = 100\<rparr>"

text \<open>A bullish hammer after the calm rows: true range 15, so the ATR of the row is 2.\<close>

definition signal_candle :: candle where
  "signal_candle = \<lparr>time = 100, open = 100, high = 105, low = 90, close = 105\<rparr>"

text \<open>One signal, and the next row reaches the take-profit level and closes above the entry.\<close>

definition winner_frame :: frame where
  "winner_frame =
     \<lparr>columns = required_cols,
      rows = map calm [0..<100] @
        [signal_candle, \<lparr>time = 101, open = 105, high = 110, low = 105, close = 110\<rparr>]\<rparr>"

text \<open>One signal, and the next row reaches the take-profit level but closes below the entry.\<close>

definition tp_loss_frame :: frame where
  "tp_loss_frame =
     \<lparr>columns = required_cols,
      rows = map calm [0..<100] @
        [signal_candle, \<lparr>time = 101, open = 105, high = 109, low = 104, close = 104.5\<rparr>]\<rparr>"

text \<open>
  Two signals in a row; both trades leave at the third row. The second signal has body
  0.25, no upper shadow and lower shadow 0.75, all of them exact in binary floating point.
\<close>

definition overlap_frame :: frame where
  "overlap_frame =
     \<lparr>columns = required_cols,
      rows = map calm [0..<100] @
        [signal_candle,
         \<lparr>time = 101, open = 105.75, high = 106, low = 105, close = 106\<rparr>,
         \<lparr>time = 102, open = 106, high = 111, low = 106, close = 110\<rparr>]\<rparr>"

text \<open>
  A frame whose rows before the signal do not move, and a signal row whose high and low
  both equal the previous close: the true range is 0 on the whole window.
\<close>

definition zero_atr_frame :: frame where
  "zero_atr_frame =
     \<lparr>columns = required_cols,
      rows = map flat [0..<100] @
        [\<lparr>time = 100, open = 103, high = 100, low = 100, close = 105\<rparr>,
         \<lparr>time = 101, open = 105, high = 105, low = 99, close = 100\<rparr>]\<rparr>"




text \<open>The parameters of the first combination that \<open>optimize_strategy_fixed\<close> tests.\<close>

definition recommended1 :: params where
  "recommended1 =
     \<lparr>buy_sl_mult = 1.0, buy_tp_mult = 1.5, sell_sl_mult = 1.5, sell_tp_mult = 3.0,
      max_lower_shadow = 0.65, min_upper_shadow = 1.5\<rparr>"

text \<open>
  Two short series for one round of the trade loops at position 0: a signal row, a row that
  touches neither level, and a row whose range covers both the take-profit and the
  stop-loss level.
\<close>

definition both_touch_buy :: "candle list" where
  "both_touch_buy =
     [\<lparr>time = 0, open = 100, high = 105, low = 90, close = 105\<rparr>,
      \<lparr>time = 1, open = 105, high = 106, low = 104, close = 105\<rparr>,
      \<lparr>time = 2, open = 105, high = 110, low = 100, close = 104\<rparr>]"

definition both_touch_sell :: "candle list" where
  "both_touch_sell =
     [\<lparr>time = 0, open = 105, high = 115, low = 100, close = 100\<rparr>,
      \<lparr>time = 1, open = 100, high = 101, low = 99, close = 100\<rparr>,
      \<lparr>time = 2, open = 100, high = 104, low = 92, close = 103\<rparr>]"

text \<open>
  A polling round of the live bot: a bullish hammer above the lower EMA, ATR 2, and a
  broker that accepts the order. \<open>no_rounding\<close> stands in for \<open>round\<close> where the prices need
  none.
\<close>

definition bull_round :: round_input where
  "bull_round =
     \<lparr>last_row =
        \<lparr>candle_of = \<lparr>time = 0, open = 100, high = 105, low = 85, close = 105\<rparr>,
         ema_lower = 100, ema_upper = 101\<rparr>,
      atr_value = 2, status_code = 201, clock = 0\<rparr>"

definition no_rounding :: "real \<Rightarrow> int \<Rightarrow> real" where
  "no_rounding x ndigits = x"

section \<open>Properties of the indicators\<close>

lemma ewm_rec_length: "length (ewm_rec a w xs) = length xs"
  by (induction xs arbitrary: w) (simp_all add: Let_def)

lemma ewm_rec_nth:
  "i < length xs \<Longrightarrow>
   ewm_rec a w xs ! i = xs ! i * a + (if i = 0 then w else ewm_rec a w xs ! (i - 1)) * (1 - a)"
proof (induction xs arbitrary: w i)
  case Nil
  then show ?case by simp
next
  case (Cons x xs)
  show ?case
  proof (cases i)
    case 0
    then show ?thesis by (simp add: Let_def algebra_simps)
  next
    case (Suc j)
    with Cons.prems have j: "j < length xs" by simp
    show ?thesis
      using Cons.IH [OF j, of "(1 - a) * w + a * x"] Suc
      by (cases j) (simp_all add: Let_def)
  qed
qed

lemma ewm_rec_append:
  "take (length xs) (ewm_rec a w (xs @ ys)) = ewm_rec a w xs"
  by (induction xs arbitrary: w) (simp_all add: Let_def)

lemma ewm_mean_ok:
  assumes s: "1 \<le> spn"
  shows "\<exists>ys. ewm_mean spn xs = Inr ys \<and> length ys = length xs \<and>
     (\<forall>i<length xs. ys ! i =
        (if i = 0 then xs ! 0
         else xs ! i * (2 / (real_of_int spn + 1)) + ys ! (i - 1) * (1 - 2 / (real_of_int spn + 1))))"
proof (cases xs)
  case Nil
  then show ?thesis using s by (simp add: ewm_mean_def)
next
  case (Cons x xs')
  let ?a = "2 / (real_of_int spn + 1)"
  let ?ys = "x # ewm_rec ?a x xs'"
  have e: "ewm_mean spn xs = Inr ?ys" using s Cons by (simp add: ewm_mean_def)
  have l: "length ?ys = length xs" using Cons by (simp add: ewm_rec_length)
  have r: "?ys ! i = (if i = 0 then xs ! 0 else xs ! i * ?a + ?ys ! (i - 1) * (1 - ?a))"
    if "i < length xs" for i
  proof (cases i)
    case 0
    then show ?thesis using Cons by simp
  next
    case (Suc j)
    with that Cons have j: "j < length xs'" by simp
    show ?thesis using ewm_rec_nth [OF j, of ?a x] Suc Cons
      by (cases j) simp_all
  qed
  show ?thesis using e l r by blast
qed

lemma ewm_mean_prefix:
  "ewm_mean spn xs = Inr ys \<Longrightarrow> ewm_mean spn (xs @ zs) = Inr ys' \<Longrightarrow> take (length xs) ys' = ys"
  by (cases xs) (auto simp: ewm_mean_def ewm_rec_append split: if_splits)

lemma length_shift1: "length (shift1 xs) = length xs"
  by (simp add: shift1_def)

lemma shift1_nth:
  "i < length xs \<Longrightarrow> shift1 xs ! i = (if i = 0 then None else Some (xs ! (i - 1)))"
  by (cases i) (simp_all add: shift1_def)

lemma length_tr_col: "length (tr_col df) = length df"
  by (simp add: tr_col_def Let_def length_shift1)

lemma tr_col_nth: "i < length df \<Longrightarrow> tr_col df ! i = true_range_spec df i"
  by (simp add: tr_col_def Let_def length_shift1 shift1_nth true_range_spec_def
      abs_diff_def max_skipna_def)

lemma tr_col_prefix: "take (length s) (tr_col (s @ t)) = tr_col s"
proof (rule nth_equalityI)
  show "length (take (length s) (tr_col (s @ t))) = length (tr_col s)"
    by (simp add: length_tr_col)
next
  fix i
  assume "i < length (take (length s) (tr_col (s @ t)))"
  then have i: "i < length s" by (simp add: length_tr_col)
  then have "tr_col (s @ t) ! i = tr_col s ! i"
    by (auto simp: tr_col_nth true_range_spec_def nth_append)
  with i show "take (length s) (tr_col (s @ t)) ! i = tr_col s ! i" by simp
qed

lemma length_rolling_mean: "length (rolling_mean w xs) = length xs"
  by (simp add: rolling_mean_def)

lemma rolling_mean_nth:
  "i < length xs \<Longrightarrow>
   rolling_mean w xs ! i =
     (if w = 0 \<or> i + 1 < w then None
      else Some (sum_list (take w (drop (i + 1 - w) xs)) / real w))"
  by (simp add: rolling_mean_def)

lemma rolling_mean_prefix:
  assumes "take n zs = xs" "n \<le> length zs"
  shows "take n (rolling_mean w zs) = rolling_mean w xs"
proof (rule nth_equalityI)
  show "length (take n (rolling_mean w zs)) = length (rolling_mean w xs)"
    using assms by (auto simp: length_rolling_mean)
next
  fix i
  assume "i < length (take n (rolling_mean w zs))"
  then have i: "i < n" by simp
  have lx: "length xs = n" using assms by auto
  have "take w (drop (i + 1 - w) zs) = take w (drop (i + 1 - w) xs)" if "w \<le> i + 1"
  proof -
    have "take w (drop (i + 1 - w) xs) = take w (drop (i + 1 - w) (take n zs))"
      using assms by simp
    also have "\<dots> = take w (take (n - (i + 1 - w)) (drop (i + 1 - w) zs))"
      by (simp add: drop_take)
    also have "\<dots> = take w (drop (i + 1 - w) zs)"
    proof -
      have "w \<le> n - (i + 1 - w)" using that i by arith
      then show ?thesis by (simp add: min_absorb1)
    qed
    finally show ?thesis by simp
  qed
  then show "take n (rolling_mean w zs) ! i = rolling_mean w xs ! i"
    using i lx assms(2) by (auto simp: rolling_mean_nth)
qed

lemma take_drop_nths:
  "k + w \<le> length xs \<Longrightarrow> take w (drop k xs) = map ((!) xs) [k..<k + w]"
  by (rule nth_equalityI) simp_all

lemma atr_nth:
  assumes "i < length df" "0 < w" "w \<le> i + 1"
  shows "rolling_mean w (tr_col df) ! i =
           Some (sum_list (map (true_range_spec df) [i + 1 - w..<i + 1]) / real w)"
proof -
  have "take w (drop (i + 1 - w) (tr_col df)) = map ((!) (tr_col df)) [i + 1 - w..<i + 1]"
    using assms take_drop_nths [of "i + 1 - w" w "tr_col df"] by (simp add: length_tr_col)
  also have "\<dots> = map (true_range_spec df) [i + 1 - w..<i + 1]"
    using assms by (auto simp: tr_col_nth)
  finally show ?thesis using assms by (simp add: rolling_mean_nth length_tr_col)
qed

text \<open>
  Claim C7. For periods that pandas accepts (at least 1), \<open>compute_emas\<close> returns, and each
  of its two EMA columns starts at the first close and then follows
  \<open>ema[i] = close[i] * k + ema[i-1] * (1 - k)\<close> with \<open>k = 2 / (period + 1)\<close>, the fast
  column with the fast period and the slow column with the slow period, both over the
  same closes.
\<close>

theorem ema_recurrence:
  assumes "1 \<le> fast_period" "1 \<le> slow_period"
  shows "\<exists>r. compute_emas df fast_period slow_period = Inr r
     \<and> length (EMA_fast r) = length df \<and> length (EMA_slow r) = length df
     \<and> (\<forall>i<length df. EMA_fast r ! i =
           (if i = 0 then close (df ! 0)
            else close (df ! i) * (2 / (real_of_int fast_period + 1))
                 + EMA_fast r ! (i - 1) * (1 - 2 / (real_of_int fast_period + 1))))
     \<and> (\<forall>i<length df. EMA_slow r ! i =
           (if i = 0 then close (df ! 0)
            else close (df ! i) * (2 / (real_of_int slow_period + 1))
                 + EMA_slow r ! (i - 1) * (1 - 2 / (real_of_int slow_period + 1))))"
proof -
  from ewm_mean_ok [OF assms(1), of "map close df"] obtain f where
    f: "ewm_mean fast_period (map close df) = Inr f" "length f = length df"
       "\<forall>i<length df. f ! i =
          (if i = 0 then close (df ! 0)
           else close (df ! i) * (2 / (real_of_int fast_period + 1))
                + f ! (i - 1) * (1 - 2 / (real_of_int fast_period + 1)))"
    by auto
  from ewm_mean_ok [OF assms(2), of "map close df"] obtain s where
    s: "ewm_mean slow_period (map close df) = Inr s" "length s = length df"
       "\<forall>i<length df. s ! i =
          (if i = 0 then close (df ! 0)
           else close (df ! i) * (2 / (real_of_int slow_period + 1))
                + s ! (i - 1) * (1 - 2 / (real_of_int slow_period + 1)))"
    by auto
  show ?thesis using f s by (simp add: compute_emas_def)
qed

theorem ema_recurrence_witness:
  "(1::int) \<le> 9 \<and> (1::int) \<le> 15 \<and>
   (\<exists>r. compute_emas
          [\<lparr>time = 0, open = 10, high = 12, low = 9, close = 11\<rparr>,
           \<lparr>time = 1, open = 11, high = 13, low = 10, close = 9\<rparr>] 9 15 = Inr r
        \<and> EMA_fast r ! 0 = 11 \<and> EMA_fast r ! 1 = 10.6
        \<and> EMA_slow r ! 0 = 11 \<and> EMA_slow r ! 1 = 10.75)"
proof -
  let ?df = "[\<lparr>time = 0, open = 10, high = 12, low = 9, close = 11\<rparr>,
              \<lparr>time = 1, open = 11, high = 13, low = 10, close = 9\<rparr>]"
  have h: "(1::int) \<le> 9" "(1::int) \<le> 15" by simp_all
  from ema_recurrence [OF h, of ?df] obtain r where
    r: "compute_emas ?df 9 15 = Inr r"
    and f: "\<forall>i<length ?df. EMA_fast r ! i =
           (if i = 0 then close (?df ! 0)
            else close (?df ! i) * (2 / (real_of_int 9 + 1))
                 + EMA_fast r ! (i - 1) * (1 - 2 / (real_of_int 9 + 1)))"
    and s: "\<forall>i<length ?df. EMA_slow r ! i =
           (if i = 0 then close (?df ! 0)
            else close (?df ! i) * (2 / (real_of_int 15 + 1))
                 + EMA_slow r ! (i - 1) * (1 - 2 / (real_of_int 15 + 1)))"
    by blast
  have f0: "EMA_fast r ! 0 = 11" using f [rule_format, of 0] by simp
  have f1: "EMA_fast r ! 1 = 10.6" using f [rule_format, of 1] f0 by simp
  have s0: "EMA_slow r ! 0 = 11" using s [rule_format, of 0] by simp
  have s1: "EMA_slow r ! 1 = 10.75" using s [rule_format, of 1] s0 by simp
  show ?thesis using r f0 f1 s0 s1 by auto
qed

lemma compute_emas_returns:
  assumes "1 \<le> fast_period" "1 \<le> slow_period"
  shows "\<exists>r. compute_emas df fast_period slow_period = Inr r"
proof -
  from ewm_mean_ok [OF assms(1), of "map close df"] obtain f where
    "ewm_mean fast_period (map close df) = Inr f" by blast
  moreover from ewm_mean_ok [OF assms(2), of "map close df"] obtain q where
    "ewm_mean slow_period (map close df) = Inr q" by blast
  ultimately show ?thesis by (simp add: compute_emas_def)
qed

lemma compute_emas_prefix:
  assumes "compute_emas s f q = Inr e" "compute_emas (s @ t) f q = Inr e'"
  shows "take (length s) (EMA_fast e') = EMA_fast e \<and> take (length s) (EMA_slow e') = EMA_slow e
       \<and> take (length s) (EMA_lower e') = EMA_lower e
       \<and> take (length s) (EMA_upper e') = EMA_upper e"
proof -
  from assms obtain a b a' b' where
    a: "ewm_mean f (map close s) = Inr a" and b: "ewm_mean q (map close s) = Inr b"
    and a': "ewm_mean f (map close s @ map close t) = Inr a'"
    and b': "ewm_mean q (map close s @ map close t) = Inr b'"
    and e: "e = \<lparr>EMA_fast = a, EMA_slow = b, EMA_lower = map2 min a b, EMA_upper = map2 max a b\<rparr>"
    and e': "e' = \<lparr>EMA_fast = a', EMA_slow = b', EMA_lower = map2 min a' b',
                  EMA_upper = map2 max a' b'\<rparr>"
    by (auto simp: compute_emas_def split: sum.splits)
  have ta: "take (length s) a' = a" using ewm_mean_prefix [OF a a'] by simp
  have tb: "take (length s) b' = b" using ewm_mean_prefix [OF b b'] by simp
  show ?thesis using ta tb e e' by (simp add: take_map take_zip)
qed

text \<open>
  Claim C8. For periods that pandas accepts, the indicators of a candle sequence \<open>s\<close> and
  of any extension \<open>s @ t\<close> by later candles agree on the rows of \<open>s\<close>: the fast EMA, the slow
  EMA, the true range and the ATR of the longer sequence, cut to the length of \<open>s\<close>, are
  the columns computed from \<open>s\<close> alone.
\<close>

theorem indicators_prefix_stable:
  assumes "1 \<le> fast_period" "1 \<le> slow_period" "0 \<le> period"
  shows "\<exists>e e' a a'.
           compute_emas s fast_period slow_period = Inr e
         \<and> compute_emas (s @ t) fast_period slow_period = Inr e'
         \<and> take (length s) (EMA_fast e') = EMA_fast e
         \<and> take (length s) (EMA_slow e') = EMA_slow e
         \<and> take (length s) (tr_col (s @ t)) = tr_col s
         \<and> calculate_atr s period = Inr a
         \<and> calculate_atr (s @ t) period = Inr a'
         \<and> take (length s) a' = a"
proof -
  from compute_emas_returns [OF assms(1,2), of s] obtain e where
    e: "compute_emas s fast_period slow_period = Inr e" by blast
  from compute_emas_returns [OF assms(1,2), of "s @ t"] obtain e' where
    e': "compute_emas (s @ t) fast_period slow_period = Inr e'" by blast
  have a: "calculate_atr s period = Inr (rolling_mean (nat period) (tr_col s))"
    and a': "calculate_atr (s @ t) period = Inr (rolling_mean (nat period) (tr_col (s @ t)))"
    using assms(3) by (simp_all add: calculate_atr_def)
  have "take (length s) (rolling_mean (nat period) (tr_col (s @ t)))
          = rolling_mean (nat period) (tr_col s)"
    by (rule rolling_mean_prefix) (simp_all add: tr_col_prefix length_tr_col)
  with e e' a a' compute_emas_prefix [OF e e'] tr_col_prefix [of s t]
  show ?thesis by simp
qed

theorem indicators_prefix_stable_witness:
  "(1::int) \<le> 9 \<and> (1::int) \<le> 15 \<and> (0::int) \<le> 1 \<and>
   (\<exists>e e' a a'.
      compute_emas [\<lparr>time = 0, open = 10, high = 12, low = 9, close = 11\<rparr>] 9 15 = Inr e
    \<and> compute_emas ([\<lparr>time = 0, open = 10, high = 12, low = 9, close = 11\<rparr>]
          @ [\<lparr>time = 1, open = 11, high = 13, low = 10, close = 9\<rparr>]) 9 15 = Inr e'
    \<and> take (length [\<lparr>time = 0, open = 10, high = 12, low = 9, close = 11\<rparr>]) (EMA_fast e')
          = EMA_fast e
    \<and> take (length [\<lparr>time = 0, open = 10, high = 12, low = 9, close = 11\<rparr>]) (EMA_slow e')
          = EMA_slow e
    \<and> take (length [\<lparr>time = 0, open = 10, high = 12, low = 9, close = 11\<rparr>])
          (tr_col ([\<lparr>time = 0, open = 10, high = 12, low = 9, close = 11\<rparr>]
             @ [\<lparr>time = 1, open = 11, high = 13, low = 10, close = 9\<rparr>]))
          = tr_col [\<lparr>time = 0, open = 10, high = 12, low = 9, close = 11\<rparr>]
    \<and> calculate_atr [\<lparr>time = 0, open = 10, high = 12, low = 9, close = 11\<rparr>] 1 = Inr a
    \<and> calculate_atr ([\<lparr>time = 0, open = 10, high = 12, low = 9, close = 11\<rparr>]
          @ [\<lparr>time = 1, open = 11, high = 13, low = 10, close = 9\<rparr>]) 1 = Inr a'
    \<and> take (length [\<lparr>time = 0, open = 10, high = 12, low = 9, close = 11\<rparr>]) a' = a)"
proof -
  have h: "(1::int) \<le> 9" "(1::int) \<le> 15" "(0::int) \<le> 1" by simp_all
  show ?thesis
    using h indicators_prefix_stable [OF h,
      of "[\<lparr>time = 0, open = 10, high = 12, low = 9, close = 11\<rparr>]"
         "[\<lparr>time = 1, open = 11, high = 13, low = 10, close = 9\<rparr>]"]
    by blast
qed

section \<open>Properties of the statistics\<close>

text \<open>
  Claim C6. For every trade list that is not empty, the statistics of \<open>backtest_vectorized\<close>
  count as wins the trades with profit above zero and as losses the trades with profit
  at most zero (a break-even trade is a loss); the two counts add up to the number of
  trades, and the win rate is the share of wins times 100, between 0 and 100.
\<close>

theorem win_loss_partition:
  assumes "ts \<noteq> []"
  shows "win_count (calc_stats df ts) = length (filter (\<lambda>t. profit t > 0) ts)
       \<and> loss_count (calc_stats df ts) = length (filter (\<lambda>t. profit t \<le> 0) ts)
       \<and> total_trades (calc_stats df ts) = length ts
       \<and> win_count (calc_stats df ts) + loss_count (calc_stats df ts)
            = total_trades (calc_stats df ts)
       \<and> win_rate (calc_stats df ts)
            = real (win_count (calc_stats df ts)) / real (total_trades (calc_stats df ts)) * 100
       \<and> 0 \<le> win_rate (calc_stats df ts) \<and> win_rate (calc_stats df ts) \<le> 100"
proof -
  let ?w = "length (filter (\<lambda>t. profit t > 0) ts)"
  let ?l = "length (filter (\<lambda>t. profit t \<le> 0) ts)"
  have n: "0 < length ts" using assms by simp
  have part: "?w + ?l = length ts"
    using sum_length_filter_compl [of "\<lambda>t. profit t > 0" ts] by (simp add: not_less)
  have wle: "?w \<le> length ts" by simp
  have rate: "real ?w / real (length ts) * 100 \<le> 100"
    using n wle by (simp add: field_simps)
  show ?thesis using n part rate by (simp add: calc_stats_def Let_def)
qed

theorem win_loss_partition_witness:
  "[\<lparr>entry_time = 100, entry_price = 105, exit_time = 101, exit_price = 110,
     trade_type = BUY, profit = 5, profit_pct = Some (100 / 21), hit_tp = True,
     sl = 103, tp = 109, candles_held = 1\<rparr>] \<noteq> []
   \<and> win_count (calc_stats []
        [\<lparr>entry_time = 100, entry_price = 105, exit_time = 101, exit_price = 110,
          trade_type = BUY, profit = 5, profit_pct = Some (100 / 21), hit_tp = True,
          sl = 103, tp = 109, candles_held = 1\<rparr>]) = 1
   \<and> loss_count (calc_stats []
        [\<lparr>entry_time = 100, entry_price = 105, exit_time = 101, exit_price = 110,
          trade_type = BUY, profit = 5, profit_pct = Some (100 / 21), hit_tp = True,
          sl = 103, tp = 109, candles_held = 1\<rparr>]) = 0
   \<and> win_rate (calc_stats []
        [\<lparr>entry_time = 100, entry_price = 105, exit_time = 101, exit_price = 110,
          trade_type = BUY, profit = 5, profit_pct = Some (100 / 21), hit_tp = True,
          sl = 103, tp = 109, candles_held = 1\<rparr>]) = 100"
  using win_loss_partition [of
        "[\<lparr>entry_time = 100, entry_price = 105, exit_time = 101, exit_price = 110,
          trade_type = BUY, profit = 5, profit_pct = Some (100 / 21), hit_tp = True,
          sl = 103, tp = 109, candles_held = 1\<rparr>]" "[]"]
  by simp

section \<open>Properties of the pattern detection\<close>

lemma is_bullish_hammer_bot_iff:
  "is_bullish_hammer_bot cfg row \<longleftrightarrow>
      close row > open row \<and> close row - open row \<ge> 0.0001
      \<and> high row - close row \<le> cfg_max_lower_shadow_factor cfg * (close row - open row)
      \<and> open row - low row \<ge> cfg_min_upper_shadow_ratio cfg * (close row - open row)"
  unfolding is_bullish_hammer_bot_def Let_def by (simp add: not_less not_le)

lemma is_bearish_hammer_bot_iff:
  "is_bearish_hammer_bot cfg row \<longleftrightarrow>
      close row < open row \<and> open row - close row \<ge> 0.0001
      \<and> close row - low row \<le> cfg_max_lower_shadow_factor cfg * (open row - close row)
      \<and> high row - open row \<ge> cfg_min_upper_shadow_ratio cfg * (open row - close row)"
  unfolding is_bearish_hammer_bot_def Let_def by (simp add: not_less not_le)

lemma is_bullish_hammer_p_iff:
  "is_bullish_hammer_p row fac ratio \<longleftrightarrow>
      close row > open row
      \<and> high row - close row \<le> fac * (close row - open row)
      \<and> open row - low row \<ge> ratio * (close row - open row)"
  unfolding is_bullish_hammer_p_def Let_def by (simp add: not_less not_le)

lemma is_bearish_hammer_p_iff:
  "is_bearish_hammer_p row fac ratio \<longleftrightarrow>
      close row < open row
      \<and> close row - low row \<le> fac * (open row - close row)
      \<and> high row - open row \<ge> ratio * (open row - close row)"
  unfolding is_bearish_hammer_p_def Let_def by (simp add: not_less not_le)

lemma is_bullish_hammer_eq_p: "is_bullish_hammer row = is_bullish_hammer_p row 0.65 1.5"
  by (simp add: is_bullish_hammer_def is_bullish_hammer_p_def)

lemma is_bearish_hammer_eq_p: "is_bearish_hammer row = is_bearish_hammer_p row 0.65 1.5"
  by (simp add: is_bearish_hammer_def is_bearish_hammer_p_def)

text \<open>
  Claim C2, as amended. The classifier of finalBot.py returns Bullish exactly when the
  close is above the open, the body is at least 0.0001, the upper shadow is at most the
  configured factor times the body and the lower shadow at least the configured ratio
  times the body; Bearish is the mirror image. The classifiers of check\_accuracy.py
  (thresholds 0.65 and 1.5) and optimize\_fixed.py (thresholds as arguments) have the same
  shadow conditions and no lower bound on the body. In each file no row is both Bullish
  and Bearish; a row that meets neither set of conditions is neither.
\<close>

theorem hammer_classification:
  "(is_bullish_hammer_bot cfg row \<longleftrightarrow>
      close row > open row \<and> close row - open row \<ge> 0.0001
      \<and> high row - close row \<le> cfg_max_lower_shadow_factor cfg * (close row - open row)
      \<and> open row - low row \<ge> cfg_min_upper_shadow_ratio cfg * (close row - open row))
 \<and> (is_bearish_hammer_bot cfg row \<longleftrightarrow>
      close row < open row \<and> open row - close row \<ge> 0.0001
      \<and> close row - low row \<le> cfg_max_lower_shadow_factor cfg * (open row - close row)
      \<and> high row - open row \<ge> cfg_min_upper_shadow_ratio cfg * (open row - close row))
 \<and> (is_bullish_hammer row \<longleftrightarrow>
      close row > open row
      \<and> high row - close row \<le> 0.65 * (close row - open row)
      \<and> open row - low row \<ge> 1.5 * (close row - open row))
 \<and> (is_bearish_hammer row \<longleftrightarrow>
      close row < open row
      \<and> close row - low row \<le> 0.65 * (open row - close row)
      \<and> high row - open row \<ge> 1.5 * (open row - close row))
 \<and> (is_bullish_hammer_p row fac ratio \<longleftrightarrow>
      close row > open row
      \<and> high row - close row \<le> fac * (close row - open row)
      \<and> open row - low row \<ge> ratio * (close row - open row))
 \<and> (is_bearish_hammer_p row fac ratio \<longleftrightarrow>
      close row < open row
      \<and> close row - low row \<le> fac * (open row - close row)
      \<and> high row - open row \<ge> ratio * (open row - close row))
 \<and> \<not> (is_bullish_hammer_bot cfg row \<and> is_bearish_hammer_bot cfg row)
 \<and> \<not> (is_bullish_hammer row \<and> is_bearish_hammer row)
 \<and> \<not> (is_bullish_hammer_p row fac ratio \<and> is_bearish_hammer_p row fac ratio)"
  unfolding is_bullish_hammer_eq_p is_bearish_hammer_eq_p
  unfolding is_bullish_hammer_bot_iff is_bearish_hammer_bot_iff
    is_bullish_hammer_p_iff is_bearish_hammer_p_iff
  by simp

theorem hammer_classification_witness:
  "is_bullish_hammer_bot CFG \<lparr>time = 0, open = 10, high = 11, low = 7, close = 11\<rparr>
   \<and> \<not> is_bearish_hammer_bot CFG \<lparr>time = 0, open = 10, high = 11, low = 7, close = 11\<rparr>
   \<and> is_bullish_hammer \<lparr>time = 0, open = 10, high = 11, low = 7, close = 11\<rparr>
   \<and> \<not> is_bearish_hammer \<lparr>time = 0, open = 10, high = 11, low = 7, close = 11\<rparr>"
  using hammer_classification [of CFG "\<lparr>time = 0, open = 10, high = 11, low = 7, close = 11\<rparr>"]
  by (simp add: CFG_def)

text \<open>
  Claim C2 as stated fails in check\_accuracy.py: a candle with body 0.00005, below the
  0.0001 that finalBot.py refuses, is a bullish hammer there.
\<close>

theorem small_body_bullish_counterexample:
  "is_bullish_hammer \<lparr>time = 0, open = 1, high = 1.00005, low = 0.9999, close = 1.00005\<rparr>
   \<and> close \<lparr>time = 0, open = 1, high = 1.00005, low = 0.9999, close = 1.00005\<rparr>
       - open \<lparr>time = 0, open = 1, high = 1.00005, low = 0.9999, close = 1.00005\<rparr> < 0.0001
   \<and> \<not> is_bullish_hammer_bot CFG
         \<lparr>time = 0, open = 1, high = 1.00005, low = 0.9999, close = 1.00005\<rparr>"
  by (simp add: is_bullish_hammer_def is_bullish_hammer_bot_def CFG_def)

section \<open>Properties of the trade loops\<close>

lemma scan_buy_find:
  "scan_buy tpl sll rs =
     (case find (\<lambda>r. high r \<ge> tpl \<or> low r \<le> sll) rs of
        None \<Rightarrow> (False, False, None)
      | Some r \<Rightarrow> (high r \<ge> tpl, \<not> high r \<ge> tpl, Some (time r)))"
  by (induction rs) auto

lemma scan_sell_find:
  "scan_sell tpl sll rs =
     (case find (\<lambda>r. low r \<le> tpl \<or> high r \<ge> sll) rs of
        None \<Rightarrow> (False, False, None)
      | Some r \<Rightarrow> (low r \<le> tpl, \<not> low r \<le> tpl, Some (time r)))"
  by (induction rs) auto

lemma scan_buy_p_find:
  "scan_buy_p tpl sll rs =
     (case find (\<lambda>r. high r \<ge> tpl \<or> low r \<le> sll) rs of
        None \<Rightarrow> (None, False)
      | Some r \<Rightarrow> (Some (time r), high r \<ge> tpl))"
  by (induction rs) auto

lemma scan_sell_p_find:
  "scan_sell_p tpl sll rs =
     (case find (\<lambda>r. low r \<le> tpl \<or> high r \<ge> sll) rs of
        None \<Rightarrow> (None, False)
      | Some r \<Rightarrow> (Some (time r), low r \<le> tpl))"
  by (induction rs) auto

lemma find_Some_member: "find P xs = Some x \<Longrightarrow> x \<in> set xs \<and> P x"
  by (induction xs) (auto split: if_splits)

lemma future_data_subset: "r \<in> set (future_data df i) \<Longrightarrow> r \<in> set df"
  unfolding future_data_def by (meson in_set_dropD in_set_takeD)

lemma future_data_nths:
  "future_data df i = map ((!) df) [i + 1..<min (i + 100) (length df)]"
proof (rule nth_equalityI)
  show "length (future_data df i) = length (map ((!) df) [i + 1..<min (i + 100) (length df)])"
    by (auto simp: future_data_def min_def)
next
  fix k
  assume "k < length (future_data df i)"
  then have k: "k < 99" "i + 1 + k < length df" by (auto simp: future_data_def)
  then show "future_data df i ! k = map ((!) df) [i + 1..<min (i + 100) (length df)] ! k"
    by (simp add: future_data_def)
qed

lemma loc_close_member:
  assumes "loc_close df ts = Inr p" "r \<in> set df" "time r = ts"
  shows "p = close r"
proof -
  from assms(1) obtain r0 where f: "filter (\<lambda>r. time r = ts) df = [r0]" and p: "p = close r0"
    by (auto simp: loc_close_def split: list.splits)
  have "r \<in> set (filter (\<lambda>r. time r = ts) df)" using assms(2,3) by simp
  with f have "r = r0" by simp
  with p show ?thesis by simp
qed

lemma buy_branch_find:
  "buy_branch df atrs use_atr i acc =
     (let entry = close (df ! i);
          sll = (if use_atr \<and> gt0 (atrs ! i) then entry - 1.0 * the (atrs ! i) else entry - 5);
          tpl = (if use_atr \<and> gt0 (atrs ! i) then entry + 2.0 * the (atrs ! i) else entry + 10)
      in case find (\<lambda>r. high r \<ge> tpl \<or> low r \<le> sll) (future_data df i) of
           None \<Rightarrow> Inr acc
         | Some r \<Rightarrow>
             (case loc_close df (time r) of
                Inl e \<Rightarrow> Inl e
              | Inr p \<Rightarrow>
                 (case get_loc df (time r) of
                    Inl e \<Rightarrow> Inl e
                  | Inr pos \<Rightarrow>
                      Inr (acc @
                        [\<lparr>entry_time = time (df ! i), entry_price = entry,
                          exit_time = time r, exit_price = p, trade_type = BUY,
                          profit = p - entry, profit_pct = pct_of (p - entry) entry,
                          hit_tp = (high r \<ge> tpl), sl = sll, tp = tpl,
                          candles_held = int pos - int i\<rparr>]))))"
  unfolding buy_branch_def Let_def scan_buy_find
  by (simp split: option.splits sum.splits)

lemma sell_branch_find:
  "sell_branch df atrs use_atr i acc =
     (let entry = close (df ! i);
          sll = (if use_atr \<and> gt0 (atrs ! i) then entry + 2.0 * the (atrs ! i) else entry + 10);
          tpl = (if use_atr \<and> gt0 (atrs ! i) then entry - 4.0 * the (atrs ! i) else entry - 20)
      in case find (\<lambda>r. low r \<le> tpl \<or> high r \<ge> sll) (future_data df i) of
           None \<Rightarrow> Inr acc
         | Some r \<Rightarrow>
             (case loc_close df (time r) of
                Inl e \<Rightarrow> Inl e
              | Inr p \<Rightarrow>
                 (case get_loc df (time r) of
                    Inl e \<Rightarrow> Inl e
                  | Inr pos \<Rightarrow>
                      Inr (acc @
                        [\<lparr>entry_time = time (df ! i), entry_price = entry,
                          exit_time = time r, exit_price = p, trade_type = SELL,
                          profit = entry - p, profit_pct = pct_of (entry - p) entry,
                          hit_tp = (low r \<le> tpl), sl = sll, tp = tpl,
                          candles_held = int pos - int i\<rparr>]))))"
  unfolding sell_branch_def Let_def scan_sell_find
  by (simp split: option.splits sum.splits)

lemma buy_branch_at_levels:
  assumes "entry = close (df ! i)"
    and "sll = (if use_atr \<and> gt0 (atrs ! i) then entry - 1.0 * the (atrs ! i) else entry - 5)"
    and "tpl = (if use_atr \<and> gt0 (atrs ! i) then entry + 2.0 * the (atrs ! i) else entry + 10)"
  shows "buy_branch df atrs use_atr i acc =
     (case find (\<lambda>r. high r \<ge> tpl \<or> low r \<le> sll) (future_data df i) of
           None \<Rightarrow> Inr acc
         | Some r \<Rightarrow>
             (case loc_close df (time r) of
                Inl e \<Rightarrow> Inl e
              | Inr p \<Rightarrow>
                 (case get_loc df (time r) of
                    Inl e \<Rightarrow> Inl e
                  | Inr pos \<Rightarrow>
                      Inr (acc @
                        [\<lparr>entry_time = time (df ! i), entry_price = entry,
                          exit_time = time r, exit_price = p, trade_type = BUY,
                          profit = p - entry, profit_pct = pct_of (p - entry) entry,
                          hit_tp = (high r \<ge> tpl), sl = sll, tp = tpl,
                          candles_held = int pos - int i\<rparr>]))))"
  apply (subst buy_branch_find)
  apply (simp only: Let_def)
  apply (simp only: assms(3) [symmetric] assms(2) [symmetric] assms(1) [symmetric])
  done

lemma buy_branch_cases:
  assumes run: "buy_branch df atrs use_atr i acc = Inr ts'"
    and lv: "entry = close (df ! i)"
      "sll = (if use_atr \<and> gt0 (atrs ! i) then entry - 1.0 * the (atrs ! i) else entry - 5)"
      "tpl = (if use_atr \<and> gt0 (atrs ! i) then entry + 2.0 * the (atrs ! i) else entry + 10)"
  shows "case find (\<lambda>r. high r \<ge> tpl \<or> low r \<le> sll) (future_data df i) of
           None \<Rightarrow> ts' = acc
         | Some r \<Rightarrow>
             \<exists>t. ts' = acc @ [t] \<and> trade_type t = BUY
               \<and> entry_time t = time (df ! i) \<and> entry_price t = entry
               \<and> exit_time t = time r \<and> exit_price t = close r
               \<and> profit t = close r - entry
               \<and> sl t = sll \<and> tp t = tpl
               \<and> hit_tp t = (high r \<ge> tpl)"
proof (cases "find (\<lambda>r. high r \<ge> tpl \<or> low r \<le> sll) (future_data df i)")
  case None
  with run show ?thesis by (simp add: buy_branch_at_levels [OF lv])
next
  case (Some r)
  have "r \<in> set (future_data df i)" using find_Some_member [OF Some] by simp
  then have r: "r \<in> set df" by (rule future_data_subset)
  from run Some obtain p where p: "loc_close df (time r) = Inr p"
    by (cases "loc_close df (time r)") (simp_all add: buy_branch_at_levels [OF lv])
  from run Some p obtain pos where pos: "get_loc df (time r) = Inr pos"
    by (cases "get_loc df (time r)") (simp_all add: buy_branch_at_levels [OF lv])
  have pc: "p = close r" using loc_close_member [OF p r] by simp
  from run Some p pos pc have
    "ts' = acc @
          [\<lparr>entry_time = time (df ! i), entry_price = entry,
            exit_time = time r, exit_price = close r, trade_type = BUY,
            profit = close r - entry, profit_pct = pct_of (close r - entry) entry,
            hit_tp = (high r \<ge> tpl), sl = sll, tp = tpl,
            candles_held = int pos - int i\<rparr>]"
    by (simp add: buy_branch_at_levels [OF lv])
  then show ?thesis using Some by simp
qed

lemma sell_branch_at_levels:
  assumes "entry = close (df ! i)"
    and "sll = (if use_atr \<and> gt0 (atrs ! i) then entry + 2.0 * the (atrs ! i) else entry + 10)"
    and "tpl = (if use_atr \<and> gt0 (atrs ! i) then entry - 4.0 * the (atrs ! i) else entry - 20)"
  shows "sell_branch df atrs use_atr i acc =
     (case find (\<lambda>r. low r \<le> tpl \<or> high r \<ge> sll) (future_data df i) of
           None \<Rightarrow> Inr acc
         | Some r \<Rightarrow>
             (case loc_close df (time r) of
                Inl e \<Rightarrow> Inl e
              | Inr p \<Rightarrow>
                 (case get_loc df (time r) of
                    Inl e \<Rightarrow> Inl e
                  | Inr pos \<Rightarrow>
                      Inr (acc @
                        [\<lparr>entry_time = time (df ! i), entry_price = entry,
                          exit_time = time r, exit_price = p, trade_type = SELL,
                          profit = entry - p, profit_pct = pct_of (entry - p) entry,
                          hit_tp = (low r \<le> tpl), sl = sll, tp = tpl,
                          candles_held = int pos - int i\<rparr>]))))"
  apply (subst sell_branch_find)
  apply (simp only: Let_def)
  apply (simp only: assms(3) [symmetric] assms(2) [symmetric] assms(1) [symmetric])
  done

lemma sell_branch_cases:
  assumes run: "sell_branch df atrs use_atr i acc = Inr ts'"
    and lv: "entry = close (df ! i)"
      "sll = (if use_atr \<and> gt0 (atrs ! i) then entry + 2.0 * the (atrs ! i) else entry + 10)"
      "tpl = (if use_atr \<and> gt0 (atrs ! i) then entry - 4.0 * the (atrs ! i) else entry - 20)"
  shows "case find (\<lambda>r. low r \<le> tpl \<or> high r \<ge> sll) (future_data df i) of
           None \<Rightarrow> ts' = acc
         | Some r \<Rightarrow>
             \<exists>t. ts' = acc @ [t] \<and> trade_type t = SELL
               \<and> entry_time t = time (df ! i) \<and> entry_price t = entry
               \<and> exit_time t = time r \<and> exit_price t = close r
               \<and> profit t = entry - close r
               \<and> sl t = sll \<and> tp t = tpl
               \<and> hit_tp t = (low r \<le> tpl)"
proof (cases "find (\<lambda>r. low r \<le> tpl \<or> high r \<ge> sll) (future_data df i)")
  case None
  with run show ?thesis by (simp add: sell_branch_at_levels [OF lv])
next
  case (Some r)
  have "r \<in> set (future_data df i)" using find_Some_member [OF Some] by simp
  then have r: "r \<in> set df" by (rule future_data_subset)
  from run Some obtain p where p: "loc_close df (time r) = Inr p"
    by (cases "loc_close df (time r)") (simp_all add: sell_branch_at_levels [OF lv])
  from run Some p obtain pos where pos: "get_loc df (time r) = Inr pos"
    by (cases "get_loc df (time r)") (simp_all add: sell_branch_at_levels [OF lv])
  have pc: "p = close r" using loc_close_member [OF p r] by simp
  from run Some p pos pc have
    "ts' = acc @
          [\<lparr>entry_time = time (df ! i), entry_price = entry,
            exit_time = time r, exit_price = close r, trade_type = SELL,
            profit = entry - close r, profit_pct = pct_of (entry - close r) entry,
            hit_tp = (low r \<le> tpl), sl = sll, tp = tpl,
            candles_held = int pos - int i\<rparr>]"
    by (simp add: sell_branch_at_levels [OF lv])
  then show ?thesis using Some by simp
qed

lemma loop_body_p_buy:
  assumes "is_bullish_hammer_p (df ! i) (max_lower_shadow ps) (min_upper_shadow ps)"
    and "gt0 (atrs ! i)"
  shows "loop_body_p df atrs ps i acc =
     (let entry = close (df ! i);
          sll = entry - buy_sl_mult ps * the (atrs ! i);
          tpl = entry + buy_tp_mult ps * the (atrs ! i)
      in case find (\<lambda>r. high r \<ge> tpl \<or> low r \<le> sll) (future_data df i) of
           None \<Rightarrow> acc
         | Some r \<Rightarrow>
             acc @ [\<lparr>type_p = BUY, entry_p = entry,
                    profit_p = (if high r \<ge> tpl then buy_tp_mult ps * the (atrs ! i)
                                else - (buy_sl_mult ps * the (atrs ! i))),
                    hit_tp_p = (high r \<ge> tpl)\<rparr>])"
  using assms unfolding loop_body_p_def Let_def scan_buy_p_find
  by (simp split: option.splits)

lemma loop_body_p_sell:
  assumes "\<not> is_bullish_hammer_p (df ! i) (max_lower_shadow ps) (min_upper_shadow ps)"
    and "is_bearish_hammer_p (df ! i) (max_lower_shadow ps) (min_upper_shadow ps)"
    and "gt0 (atrs ! i)"
  shows "loop_body_p df atrs ps i acc =
     (let entry = close (df ! i);
          sll = entry + sell_sl_mult ps * the (atrs ! i);
          tpl = entry - sell_tp_mult ps * the (atrs ! i)
      in case find (\<lambda>r. low r \<le> tpl \<or> high r \<ge> sll) (future_data df i) of
           None \<Rightarrow> acc
         | Some r \<Rightarrow>
             acc @ [\<lparr>type_p = SELL, entry_p = entry,
                    profit_p = (if low r \<le> tpl then sell_tp_mult ps * the (atrs ! i)
                                else - (sell_sl_mult ps * the (atrs ! i))),
                    hit_tp_p = (low r \<le> tpl)\<rparr>])"
  using assms unfolding loop_body_p_def Let_def scan_sell_p_find
  by (simp split: option.splits)

lemma backtest_trades_unfold:
  "list_all (\<lambda>col. col \<in> set (columns fr)) required_cols \<Longrightarrow>
   backtest_trades fr use_atr =
     run_loop (loop_body (rows fr) (rolling_mean 14 (tr_col (rows fr))) use_atr)
       [100..<length (rows fr)] []"
  by (simp add: backtest_trades_def compute_emas_def ewm_mean_def calculate_atr_def)

lemma filter_label_upt:
  "filter (\<lambda>k. int k = t) [a..<b] = (if int a \<le> t \<and> t < int b then [nat t] else [])"
proof (induction b)
  case 0
  then show ?case by simp
next
  case (Suc b)
  then show ?case by (auto simp: nat_eq_iff)
qed

lemma index_filter_map:
  "map ((!) xs) (filter (\<lambda>j. P (xs ! j)) [0..<length xs]) = filter P xs"
proof -
  have "filter P xs = filter P (map ((!) xs) [0..<length xs])" by (simp add: map_nth)
  also have "\<dots> = map ((!) xs) (filter (P \<circ> (!) xs) [0..<length xs])" by (simp only: filter_map)
  finally show ?thesis by (simp add: comp_def)
qed

lemma loc_close_single:
  "filter (\<lambda>r. time r = ts) df = [r] \<Longrightarrow> loc_close df ts = Inr (close r)"
  by (simp add: loc_close_def)

lemma get_loc_single:
  assumes "filter (\<lambda>r. time r = ts) df = [r]" "j < length df" "time (df ! j) = ts"
  shows "get_loc df ts = Inr j"
proof -
  let ?js = "filter (\<lambda>j. time (df ! j) = ts) [0..<length df]"
  have "length ?js = length (filter (\<lambda>r. time r = ts) df)"
    using index_filter_map [of df "\<lambda>r. time r = ts"] by (metis length_map)
  then have "length ?js = 1" using assms(1) by simp
  moreover have "j \<in> set ?js" using assms(2,3) by simp
  ultimately have "?js = [j]" by (cases ?js) auto
  then show ?thesis by (simp add: get_loc_def)
qed

lemma case_option_weaken:
  assumes "case x of None \<Rightarrow> A | Some r \<Rightarrow> P r" and "\<And>r. P r \<Longrightarrow> Q r"
  shows "case x of None \<Rightarrow> A | Some r \<Rightarrow> Q r"
  using assms by (cases x) simp_all

lemma loop_body_bull:
  "is_bullish_hammer (df ! i) \<Longrightarrow>
   loop_body df atrs use_atr i acc = buy_branch df atrs use_atr i acc"
  by (simp add: loop_body_def)

lemma loop_body_bear:
  "\<not> is_bullish_hammer (df ! i) \<Longrightarrow> is_bearish_hammer (df ! i) \<Longrightarrow>
   loop_body df atrs use_atr i acc = sell_branch df atrs use_atr i acc"
  by (simp add: loop_body_def)

lemma loop_body_none:
  "\<not> is_bullish_hammer (df ! i) \<Longrightarrow> \<not> is_bearish_hammer (df ! i) \<Longrightarrow>
   loop_body df atrs use_atr i acc = Inr acc"
  by (simp add: loop_body_def)

text \<open>
  Claim C1. A round of the trade loop for a signal at position \<open>i\<close> looks at the rows
  \<open>i + 1\<close> to \<open>i + 99\<close> in index order (fewer at the end of the frame). The first of
  these rows that touches the take-profit or the stop-loss level (Buy: high at or above
  take, or low at or below stop; Sell: low at or below take, or high at or above stop)
  is the exit row of the trade; when no row touches, no trade is added. The trade is
  recorded as a take-profit hit exactly when that row touches the take-profit level,
  also when it touches the stop-loss level as well. This holds for \<open>backtest_vectorized\<close>
  and for \<open>backtest_with_params\<close>.
\<close>

theorem first_touch_decides:
  "(is_bullish_hammer (df ! i) \<and> loop_body df atrs use_atr i acc = Inr ts' \<longrightarrow>
      (let entry = close (df ! i);
           sll = (if use_atr \<and> gt0 (atrs ! i) then entry - 1.0 * the (atrs ! i)
                  else entry - 5);
           tpl = (if use_atr \<and> gt0 (atrs ! i) then entry + 2.0 * the (atrs ! i)
                  else entry + 10)
       in case find (\<lambda>r. high r \<ge> tpl \<or> low r \<le> sll) (future_data df i) of
            None \<Rightarrow> ts' = acc
          | Some r \<Rightarrow>
              \<exists>t. ts' = acc @ [t] \<and> trade_type t = BUY \<and> exit_time t = time r
                \<and> hit_tp t = (high r \<ge> tpl)))
 \<and> (\<not> is_bullish_hammer (df ! i) \<and> is_bearish_hammer (df ! i)
      \<and> loop_body df atrs use_atr i acc = Inr ts' \<longrightarrow>
      (let entry = close (df ! i);
           sll = (if use_atr \<and> gt0 (atrs ! i) then entry + 2.0 * the (atrs ! i)
                  else entry + 10);
           tpl = (if use_atr \<and> gt0 (atrs ! i) then entry - 4.0 * the (atrs ! i)
                  else entry - 20)
       in case find (\<lambda>r. low r \<le> tpl \<or> high r \<ge> sll) (future_data df i) of
            None \<Rightarrow> ts' = acc
          | Some r \<Rightarrow>
              \<exists>t. ts' = acc @ [t] \<and> trade_type t = SELL \<and> exit_time t = time r
                \<and> hit_tp t = (low r \<le> tpl)))
 \<and> (is_bullish_hammer_p (df ! i) (max_lower_shadow ps) (min_upper_shadow ps)
      \<and> gt0 (atrs ! i) \<longrightarrow>
      loop_body_p df atrs ps i accp =
        (let entry = close (df ! i);
             sll = entry - buy_sl_mult ps * the (atrs ! i);
             tpl = entry + buy_tp_mult ps * the (atrs ! i)
         in case find (\<lambda>r. high r \<ge> tpl \<or> low r \<le> sll) (future_data df i) of
              None \<Rightarrow> accp
            | Some r \<Rightarrow>
                accp @ [\<lparr>type_p = BUY, entry_p = entry,
                         profit_p = (if high r \<ge> tpl then buy_tp_mult ps * the (atrs ! i)
                                     else - (buy_sl_mult ps * the (atrs ! i))),
                         hit_tp_p = (high r \<ge> tpl)\<rparr>]))
 \<and> (\<not> is_bullish_hammer_p (df ! i) (max_lower_shadow ps) (min_upper_shadow ps)
      \<and> is_bearish_hammer_p (df ! i) (max_lower_shadow ps) (min_upper_shadow ps)
      \<and> gt0 (atrs ! i) \<longrightarrow>
      loop_body_p df atrs ps i accp =
        (let entry = close (df ! i);
             sll = entry + sell_sl_mult ps * the (atrs ! i);
             tpl = entry - sell_tp_mult ps * the (atrs ! i)
         in case find (\<lambda>r. low r \<le> tpl \<or> high r \<ge> sll) (future_data df i) of
              None \<Rightarrow> accp
            | Some r \<Rightarrow>
                accp @ [\<lparr>type_p = SELL, entry_p = entry,
                         profit_p = (if low r \<le> tpl then sell_tp_mult ps * the (atrs ! i)
                                     else - (sell_sl_mult ps * the (atrs ! i))),
                         hit_tp_p = (low r \<le> tpl)\<rparr>]))
 \<and> future_data df i = map ((!) df) [i + 1..<min (i + 100) (length df)]"
proof (intro conjI impI)
  assume h: "is_bullish_hammer (df ! i) \<and> loop_body df atrs use_atr i acc = Inr ts'"
  then have run: "buy_branch df atrs use_atr i acc = Inr ts'"
    using loop_body_bull [of df i atrs use_atr acc] by simp
  from buy_branch_cases [OF run refl refl refl]
  show "let entry = close (df ! i);
           sll = (if use_atr \<and> gt0 (atrs ! i) then entry - 1.0 * the (atrs ! i)
                  else entry - 5);
           tpl = (if use_atr \<and> gt0 (atrs ! i) then entry + 2.0 * the (atrs ! i)
                  else entry + 10)
       in case find (\<lambda>r. high r \<ge> tpl \<or> low r \<le> sll) (future_data df i) of
            None \<Rightarrow> ts' = acc
          | Some r \<Rightarrow>
              \<exists>t. ts' = acc @ [t] \<and> trade_type t = BUY \<and> exit_time t = time r
                \<and> hit_tp t = (high r \<ge> tpl)"
    unfolding Let_def by (rule case_option_weaken) blast
next
  assume h: "\<not> is_bullish_hammer (df ! i) \<and> is_bearish_hammer (df ! i)
      \<and> loop_body df atrs use_atr i acc = Inr ts'"
  then have run: "sell_branch df atrs use_atr i acc = Inr ts'"
    using loop_body_bear [of df i atrs use_atr acc] by simp
  from sell_branch_cases [OF run refl refl refl]
  show "let entry = close (df ! i);
           sll = (if use_atr \<and> gt0 (atrs ! i) then entry + 2.0 * the (atrs ! i)
                  else entry + 10);
           tpl = (if use_atr \<and> gt0 (atrs ! i) then entry - 4.0 * the (atrs ! i)
                  else entry - 20)
       in case find (\<lambda>r. low r \<le> tpl \<or> high r \<ge> sll) (future_data df i) of
            None \<Rightarrow> ts' = acc
          | Some r \<Rightarrow>
              \<exists>t. ts' = acc @ [t] \<and> trade_type t = SELL \<and> exit_time t = time r
                \<and> hit_tp t = (low r \<le> tpl)"
    unfolding Let_def by (rule case_option_weaken) blast
next
  assume "is_bullish_hammer_p (df ! i) (max_lower_shadow ps) (min_upper_shadow ps)
      \<and> gt0 (atrs ! i)"
  then show "loop_body_p df atrs ps i accp =
        (let entry = close (df ! i);
             sll = entry - buy_sl_mult ps * the (atrs ! i);
             tpl = entry + buy_tp_mult ps * the (atrs ! i)
         in case find (\<lambda>r. high r \<ge> tpl \<or> low r \<le> sll) (future_data df i) of
              None \<Rightarrow> accp
            | Some r \<Rightarrow>
                accp @ [\<lparr>type_p = BUY, entry_p = entry,
                         profit_p = (if high r \<ge> tpl then buy_tp_mult ps * the (atrs ! i)
                                     else - (buy_sl_mult ps * the (atrs ! i))),
                         hit_tp_p = (high r \<ge> tpl)\<rparr>])"
    using loop_body_p_buy by blast
next
  assume "\<not> is_bullish_hammer_p (df ! i) (max_lower_shadow ps) (min_upper_shadow ps)
      \<and> is_bearish_hammer_p (df ! i) (max_lower_shadow ps) (min_upper_shadow ps)
      \<and> gt0 (atrs ! i)"
  then show "loop_body_p df atrs ps i accp =
        (let entry = close (df ! i);
             sll = entry + sell_sl_mult ps * the (atrs ! i);
             tpl = entry - sell_tp_mult ps * the (atrs ! i)
         in case find (\<lambda>r. low r \<le> tpl \<or> high r \<ge> sll) (future_data df i) of
              None \<Rightarrow> accp
            | Some r \<Rightarrow>
                accp @ [\<lparr>type_p = SELL, entry_p = entry,
                         profit_p = (if low r \<le> tpl then sell_tp_mult ps * the (atrs ! i)
                                     else - (sell_sl_mult ps * the (atrs ! i))),
                         hit_tp_p = (low r \<le> tpl)\<rparr>])"
    using loop_body_p_sell by blast
next
  show "future_data df i = map ((!) df) [i + 1..<min (i + 100) (length df)]"
    by (rule future_data_nths)
qed

lemma btb_future:
  "future_data both_touch_buy 0 =
     [\<lparr>time = 1, open = 105, high = 106, low = 104, close = 105\<rparr>,
      \<lparr>time = 2, open = 105, high = 110, low = 100, close = 104\<rparr>]"
  by (simp add: both_touch_buy_def future_data_def)

lemma bts_future:
  "future_data both_touch_sell 0 =
     [\<lparr>time = 1, open = 100, high = 101, low = 99, close = 100\<rparr>,
      \<lparr>time = 2, open = 100, high = 104, low = 92, close = 103\<rparr>]"
  by (simp add: both_touch_sell_def future_data_def)

lemma btb_0: "both_touch_buy ! 0 = \<lparr>time = 0, open = 100, high = 105, low = 90, close = 105\<rparr>"
  by (simp add: both_touch_buy_def)

lemma bts_0: "both_touch_sell ! 0 = \<lparr>time = 0, open = 105, high = 115, low = 100, close = 100\<rparr>"
  by (simp add: both_touch_sell_def)

lemma btb_loc: "loc_close both_touch_buy 2 = Inr 104" "get_loc both_touch_buy 2 = Inr 2"
  by (simp_all add: both_touch_buy_def loc_close_def get_loc_def upt_conv_Cons)

lemma bts_loc: "loc_close both_touch_sell 2 = Inr 103" "get_loc both_touch_sell 2 = Inr 2"
  by (simp_all add: both_touch_sell_def loc_close_def get_loc_def upt_conv_Cons)

lemma btb_run:
  "loop_body both_touch_buy [Some 2, None, None] True 0 [] =
     Inr [\<lparr>entry_time = 0, entry_price = 105, exit_time = 2, exit_price = 104,
            trade_type = BUY, profit = - 1, profit_pct = Some (- (20 / 21)), hit_tp = True,
            sl = 103, tp = 109, candles_held = 2\<rparr>]"
  by (simp add: loop_body_def is_bullish_hammer_def buy_branch_def btb_future btb_loc pct_of_def
      btb_0 Let_def)

lemma bts_run:
  "loop_body both_touch_sell [Some 2, None, None] True 0 [] =
     Inr [\<lparr>entry_time = 0, entry_price = 100, exit_time = 2, exit_price = 103,
            trade_type = SELL, profit = - 3, profit_pct = Some (- 3), hit_tp = True,
            sl = 104, tp = 92, candles_held = 2\<rparr>]"
  by (simp add: loop_body_def is_bullish_hammer_def is_bearish_hammer_def sell_branch_def
      bts_future bts_loc pct_of_def bts_0 Let_def)

lemma btb_run_p:
  "loop_body_p both_touch_buy [Some 2, None, None] recommended1 0 [] =
     [\<lparr>type_p = BUY, entry_p = 105, profit_p = 3, hit_tp_p = True\<rparr>]"
  by (simp add: loop_body_p_def is_bullish_hammer_p_def btb_future btb_0 Let_def
      recommended1_def)

lemma bts_run_p:
  "loop_body_p both_touch_sell [Some 2, None, None] recommended1 0 [] =
     [\<lparr>type_p = SELL, entry_p = 100, profit_p = 6, hit_tp_p = True\<rparr>]"
  by (simp add: loop_body_p_def is_bullish_hammer_p_def is_bearish_hammer_p_def bts_future
      bts_0 Let_def recommended1_def)

theorem first_touch_decides_witness:
  "is_bullish_hammer (both_touch_buy ! 0)
   \<and> loop_body both_touch_buy [Some 2, None, None] True 0 [] =
       Inr [\<lparr>entry_time = 0, entry_price = 105, exit_time = 2, exit_price = 104,
              trade_type = BUY, profit = - 1, profit_pct = Some (- (20 / 21)), hit_tp = True,
              sl = 103, tp = 109, candles_held = 2\<rparr>]
   \<and> find (\<lambda>r. high r \<ge> 109 \<or> low r \<le> 103) (future_data both_touch_buy 0)
       = Some \<lparr>time = 2, open = 105, high = 110, low = 100, close = 104\<rparr>
   \<and> is_bullish_hammer_p (both_touch_buy ! 0) (max_lower_shadow recommended1)
        (min_upper_shadow recommended1)
   \<and> gt0 ([Some 2, None, None] ! 0)
   \<and> loop_body_p both_touch_buy [Some 2, None, None] recommended1 0 [] =
       [\<lparr>type_p = BUY, entry_p = 105, profit_p = 3, hit_tp_p = True\<rparr>]
   \<and> \<not> is_bullish_hammer (both_touch_sell ! 0) \<and> is_bearish_hammer (both_touch_sell ! 0)
   \<and> loop_body both_touch_sell [Some 2, None, None] True 0 [] =
       Inr [\<lparr>entry_time = 0, entry_price = 100, exit_time = 2, exit_price = 103,
              trade_type = SELL, profit = - 3, profit_pct = Some (- 3), hit_tp = True,
              sl = 104, tp = 92, candles_held = 2\<rparr>]
   \<and> find (\<lambda>r. low r \<le> 92 \<or> high r \<ge> 104) (future_data both_touch_sell 0)
       = Some \<lparr>time = 2, open = 100, high = 104, low = 92, close = 103\<rparr>
   \<and> \<not> is_bullish_hammer_p (both_touch_sell ! 0) (max_lower_shadow recommended1)
        (min_upper_shadow recommended1)
   \<and> is_bearish_hammer_p (both_touch_sell ! 0) (max_lower_shadow recommended1)
        (min_upper_shadow recommended1)
   \<and> loop_body_p both_touch_sell [Some 2, None, None] recommended1 0 [] =
       [\<lparr>type_p = SELL, entry_p = 100, profit_p = 6, hit_tp_p = True\<rparr>]"
proof -
  have b1: "is_bullish_hammer (both_touch_buy ! 0)"
    by (simp add: btb_0 is_bullish_hammer_def)
  have b2: "find (\<lambda>r. high r \<ge> 109 \<or> low r \<le> 103) (future_data both_touch_buy 0)
       = Some \<lparr>time = 2, open = 105, high = 110, low = 100, close = 104\<rparr>"
    by (simp add: btb_future)
  have b3: "is_bullish_hammer_p (both_touch_buy ! 0) (max_lower_shadow recommended1)
        (min_upper_shadow recommended1)"
    by (simp add: btb_0 is_bullish_hammer_p_def recommended1_def)
  have b4: "gt0 ([Some 2, None, None] ! 0)" by simp
  have s1: "\<not> is_bullish_hammer (both_touch_sell ! 0)" "is_bearish_hammer (both_touch_sell ! 0)"
    by (simp_all add: bts_0 is_bullish_hammer_def is_bearish_hammer_def)
  have s2: "find (\<lambda>r. low r \<le> 92 \<or> high r \<ge> 104) (future_data both_touch_sell 0)
       = Some \<lparr>time = 2, open = 100, high = 104, low = 92, close = 103\<rparr>"
    by (simp add: bts_future)
  have s3: "\<not> is_bullish_hammer_p (both_touch_sell ! 0) (max_lower_shadow recommended1)
        (min_upper_shadow recommended1)"
    "is_bearish_hammer_p (both_touch_sell ! 0) (max_lower_shadow recommended1)
        (min_upper_shadow recommended1)"
    by (simp_all add: bts_0 is_bullish_hammer_p_def is_bearish_hammer_p_def recommended1_def)
  show ?thesis
    using first_touch_decides [of both_touch_buy 0 "[Some 2, None, None]" True "[]"
      "[\<lparr>entry_time = 0, entry_price = 105, exit_time = 2, exit_price = 104,
              trade_type = BUY, profit = - 1, profit_pct = Some (- (20 / 21)), hit_tp = True,
              sl = 103, tp = 109, candles_held = 2\<rparr>]" recommended1 "[]"]
      first_touch_decides [of both_touch_sell 0 "[Some 2, None, None]" True "[]"
      "[\<lparr>entry_time = 0, entry_price = 100, exit_time = 2, exit_price = 103,
              trade_type = SELL, profit = - 3, profit_pct = Some (- 3), hit_tp = True,
              sl = 104, tp = 92, candles_held = 2\<rparr>]" recommended1 "[]"]
      b1 b2 b3 b4 s1 s2 s3 btb_run bts_run btb_run_p bts_run_p
    by blast
qed

section \<open>The concrete inputs, evaluated\<close>

lemma calm_true_range:
  "0 < k \<Longrightarrow> k < 100 \<Longrightarrow> true_range_spec (map calm [0..<100] @ xs) k = 1"
  by (simp add: true_range_spec_def nth_append calm_def)

lemma signal_after_calm_atr:
  "rolling_mean 14 (tr_col (map calm [0..<100] @ signal_candle # xs)) ! 100 = Some 2"
proof -
  let ?rs = "map calm [0..<100] @ signal_candle # xs"
  have l: "100 < length ?rs" by simp
  have tr100: "true_range_spec ?rs 100 = 15"
    by (simp add: true_range_spec_def nth_append calm_def signal_candle_def)
  have "sum_list (map (true_range_spec ?rs) [87..<101]) = 28"
    by (simp add: calm_true_range tr100)
  then show ?thesis using atr_nth [OF l, of 14] by simp
qed

lemma label_not_calm:
  "t < 0 \<or> 100 \<le> t \<Longrightarrow> filter (\<lambda>r. time r = t) (map calm [a..<100]) = []"
  by (auto simp: filter_map comp_def calm_def filter_label_upt)

lemma signal_bullish: "is_bullish_hammer signal_candle"
  by (simp add: is_bullish_hammer_def signal_candle_def)

lemma signal_fields: "time signal_candle = 100" "close signal_candle = 105"
  by (simp_all add: signal_candle_def)

lemma tp_loss_trades:
  "backtest_trades tp_loss_frame True =
     Inr [\<lparr>entry_time = 100, entry_price = 105, exit_time = 101, exit_price = 104.5,
            trade_type = BUY, profit = - 0.5, profit_pct = Some (- (10 / 21)), hit_tp = True,
            sl = 103, tp = 109, candles_held = 1\<rparr>]"
proof -
  let ?last = "\<lparr>time = 101, open = 105, high = 109, low = 104, close = 104.5\<rparr>"
  let ?rs = "rows tp_loss_frame"
  let ?atrs = "rolling_mean 14 (tr_col ?rs)"
  have cols: "list_all (\<lambda>col. col \<in> set (columns tp_loss_frame)) required_cols"
    by (simp add: tp_loss_frame_def required_cols_def)
  have len: "length ?rs = 102" by (simp add: tp_loss_frame_def)
  have n100: "?rs ! 100 = signal_candle" and n101: "?rs ! 101 = ?last"
    by (simp_all add: tp_loss_frame_def nth_append)
  have f100: "future_data ?rs 100 = [?last]" and f101: "future_data ?rs 101 = []"
    by (simp_all add: tp_loss_frame_def future_data_def)
  have lab: "filter (\<lambda>r. time r = 101) ?rs = [?last]"
    by (simp add: tp_loss_frame_def label_not_calm signal_fields)
  have atr: "?atrs ! 100 = Some 2"
    using signal_after_calm_atr [of "[?last]"] by (simp add: tp_loss_frame_def)
  have step100: "loop_body ?rs ?atrs True 100 [] =
     Inr [\<lparr>entry_time = 100, entry_price = 105, exit_time = 101, exit_price = 104.5,
            trade_type = BUY, profit = - 0.5, profit_pct = Some (- (10 / 21)), hit_tp = True,
            sl = 103, tp = 109, candles_held = 1\<rparr>]"
    using get_loc_single [OF lab, of 101]
    by (simp add: loop_body_bull buy_branch_def n100 n101 len signal_bullish signal_fields atr
        f100 loc_close_single [OF lab] pct_of_def Let_def)
  have step101: "loop_body ?rs ?atrs True 101 ts = Inr ts" for ts
    by (simp add: loop_body_def buy_branch_def sell_branch_def f101)
  show ?thesis
    by (simp add: backtest_trades_unfold [OF cols] len step100 step101)
qed

lemma winner_trades:
  "backtest_trades winner_frame True =
     Inr [\<lparr>entry_time = 100, entry_price = 105, exit_time = 101, exit_price = 110,
            trade_type = BUY, profit = 5, profit_pct = Some (100 / 21), hit_tp = True,
            sl = 103, tp = 109, candles_held = 1\<rparr>]"
proof -
  let ?last = "\<lparr>time = 101, open = 105, high = 110, low = 105, close = 110\<rparr>"
  let ?rs = "rows winner_frame"
  let ?atrs = "rolling_mean 14 (tr_col ?rs)"
  have cols: "list_all (\<lambda>col. col \<in> set (columns winner_frame)) required_cols"
    by (simp add: winner_frame_def required_cols_def)
  have len: "length ?rs = 102" by (simp add: winner_frame_def)
  have n100: "?rs ! 100 = signal_candle" and n101: "?rs ! 101 = ?last"
    by (simp_all add: winner_frame_def nth_append)
  have f100: "future_data ?rs 100 = [?last]" and f101: "future_data ?rs 101 = []"
    by (simp_all add: winner_frame_def future_data_def)
  have lab: "filter (\<lambda>r. time r = 101) ?rs = [?last]"
    by (simp add: winner_frame_def label_not_calm signal_fields)
  have atr: "?atrs ! 100 = Some 2"
    using signal_after_calm_atr [of "[?last]"] by (simp add: winner_frame_def)
  have step100: "loop_body ?rs ?atrs True 100 [] =
     Inr [\<lparr>entry_time = 100, entry_price = 105, exit_time = 101, exit_price = 110,
            trade_type = BUY, profit = 5, profit_pct = Some (100 / 21), hit_tp = True,
            sl = 103, tp = 109, candles_held = 1\<rparr>]"
    using get_loc_single [OF lab, of 101]
    by (simp add: loop_body_bull buy_branch_def n100 n101 len signal_bullish signal_fields atr
        f100 loc_close_single [OF lab] pct_of_def Let_def)
  have step101: "loop_body ?rs ?atrs True 101 ts = Inr ts" for ts
    by (simp add: loop_body_def buy_branch_def sell_branch_def f101)
  show ?thesis
    by (simp add: backtest_trades_unfold [OF cols] len step100 step101)
qed

lemma overlap_trades:
  "backtest_trades overlap_frame True =
     Inr [\<lparr>entry_time = 100, entry_price = 105, exit_time = 102, exit_price = 110,
            trade_type = BUY, profit = 5, profit_pct = Some (100 / 21), hit_tp = True,
            sl = 103, tp = 109, candles_held = 2\<rparr>,
          \<lparr>entry_time = 101, entry_price = 106, exit_time = 102, exit_price = 110,
            trade_type = BUY, profit = 4, profit_pct = Some (200 / 53), hit_tp = True,
            sl = 104, tp = 110, candles_held = 1\<rparr>]"
proof -
  let ?mid = "\<lparr>time = 101, open = 105.75, high = 106, low = 105, close = 106\<rparr>"
  let ?last = "\<lparr>time = 102, open = 106, high = 111, low = 106, close = 110\<rparr>"
  let ?rs = "rows overlap_frame"
  let ?atrs = "rolling_mean 14 (tr_col ?rs)"
  have cols: "list_all (\<lambda>col. col \<in> set (columns overlap_frame)) required_cols"
    by (simp add: overlap_frame_def required_cols_def)
  have len: "length ?rs = 103" by (simp add: overlap_frame_def)
  have n100: "?rs ! 100 = signal_candle" and n101: "?rs ! 101 = ?mid"
    and n102: "?rs ! 102 = ?last"
    by (simp_all add: overlap_frame_def nth_append)
  have f100: "future_data ?rs 100 = [?mid, ?last]" and f101: "future_data ?rs 101 = [?last]"
    and f102: "future_data ?rs 102 = []"
    by (simp_all add: overlap_frame_def future_data_def)
  have lab: "filter (\<lambda>r. time r = 102) ?rs = [?last]"
    by (simp add: overlap_frame_def label_not_calm signal_fields)
  have atr100: "?atrs ! 100 = Some 2"
    using signal_after_calm_atr [of "[?mid, ?last]"] by (simp add: overlap_frame_def)
  have atr101: "?atrs ! 101 = Some 2"
  proof -
    have l: "101 < length ?rs" using len by simp
    have tr100: "true_range_spec ?rs 100 = 15"
      by (simp add: overlap_frame_def true_range_spec_def nth_append calm_def
          signal_candle_def)
    have tr101: "true_range_spec ?rs 101 = 1"
      by (simp add: overlap_frame_def true_range_spec_def nth_append signal_candle_def)
    have trk: "true_range_spec ?rs k = 1" if "0 < k" "k < 100" for k
      using that calm_true_range [of k] by (simp add: overlap_frame_def)
    have "sum_list (map (true_range_spec ?rs) [88..<102]) = 28"
      by (simp add: trk tr100 tr101)
    then show ?thesis using atr_nth [OF l, of 14] by simp
  qed
  have step100: "loop_body ?rs ?atrs True 100 [] =
     Inr [\<lparr>entry_time = 100, entry_price = 105, exit_time = 102, exit_price = 110,
            trade_type = BUY, profit = 5, profit_pct = Some (100 / 21), hit_tp = True,
            sl = 103, tp = 109, candles_held = 2\<rparr>]"
    using get_loc_single [OF lab, of 102]
    by (simp add: loop_body_bull buy_branch_def n100 n102 len signal_bullish signal_fields
        atr100 f100 loc_close_single [OF lab] pct_of_def Let_def)
  have step101: "loop_body ?rs ?atrs True 101 ts =
     Inr (ts @ [\<lparr>entry_time = 101, entry_price = 106, exit_time = 102, exit_price = 110,
            trade_type = BUY, profit = 4, profit_pct = Some (200 / 53), hit_tp = True,
            sl = 104, tp = 110, candles_held = 1\<rparr>])" for ts
    using get_loc_single [OF lab, of 102]
    by (simp add: loop_body_def is_bullish_hammer_def buy_branch_def n101 n102 len
        atr101 f101 loc_close_single [OF lab] pct_of_def Let_def)
  have step102: "loop_body ?rs ?atrs True 102 ts = Inr ts" for ts
    by (simp add: loop_body_def buy_branch_def sell_branch_def f102)
  show ?thesis
    by (simp add: backtest_trades_unfold [OF cols] len step100 step101 step102)
qed

lemma flat_true_range:
  "0 < k \<Longrightarrow> k < 100 \<Longrightarrow> true_range_spec (map flat [0..<100] @ xs) k = 0"
  by (auto simp: true_range_spec_def nth_append flat_def)

lemma label_not_flat:
  "t < 0 \<or> 100 \<le> t \<Longrightarrow> filter (\<lambda>r. time r = t) (map flat [a..<100]) = []"
  by (auto simp: filter_map comp_def flat_def filter_label_upt)

lemma zero_atr_value: "rolling_mean 14 (tr_col (rows zero_atr_frame)) ! 100 = Some 0"
proof -
  let ?rs = "rows zero_atr_frame"
  have l: "100 < length ?rs" by (simp add: zero_atr_frame_def)
  have tr100: "true_range_spec ?rs 100 = 0"
    by (simp add: zero_atr_frame_def true_range_spec_def nth_append flat_def)
  have trk: "true_range_spec ?rs k = 0" if "0 < k" "k < 100" for k
    using that flat_true_range [of k] by (simp add: zero_atr_frame_def)
  have "sum_list (map (true_range_spec ?rs) [87..<101]) = 0"
    by (simp add: trk tr100)
  then show ?thesis using atr_nth [OF l, of 14] by simp
qed

lemma zero_atr_trades:
  "backtest_trades zero_atr_frame True =
     Inr [\<lparr>entry_time = 100, entry_price = 105, exit_time = 101, exit_price = 100,
            trade_type = BUY, profit = - 5, profit_pct = Some (- (100 / 21)), hit_tp = False,
            sl = 100, tp = 115, candles_held = 1\<rparr>]"
proof -
  let ?sig = "\<lparr>time = 100, open = 103, high = 100, low = 100, close = 105\<rparr>"
  let ?last = "\<lparr>time = 101, open = 105, high = 105, low = 99, close = 100\<rparr>"
  let ?rs = "rows zero_atr_frame"
  let ?atrs = "rolling_mean 14 (tr_col ?rs)"
  have cols: "list_all (\<lambda>col. col \<in> set (columns zero_atr_frame)) required_cols"
    by (simp add: zero_atr_frame_def required_cols_def)
  have len: "length ?rs = 102" by (simp add: zero_atr_frame_def)
  have n100: "?rs ! 100 = ?sig" and n101: "?rs ! 101 = ?last"
    by (simp_all add: zero_atr_frame_def nth_append)
  have f100: "future_data ?rs 100 = [?last]" and f101: "future_data ?rs 101 = []"
    by (simp_all add: zero_atr_frame_def future_data_def)
  have lab: "filter (\<lambda>r. time r = 101) ?rs = [?last]"
    by (simp add: zero_atr_frame_def label_not_flat)
  have sig_bull: "is_bullish_hammer ?sig" by (simp add: is_bullish_hammer_def)
  have step100: "loop_body ?rs ?atrs True 100 [] =
     Inr [\<lparr>entry_time = 100, entry_price = 105, exit_time = 101, exit_price = 100,
            trade_type = BUY, profit = - 5, profit_pct = Some (- (100 / 21)), hit_tp = False,
            sl = 100, tp = 115, candles_held = 1\<rparr>]"
    using get_loc_single [OF lab, of 101]
    by (simp add: loop_body_bull buy_branch_def n100 n101 len sig_bull zero_atr_value
        f100 loc_close_single [OF lab] pct_of_def Let_def)
  have step101: "loop_body ?rs ?atrs True 101 ts = Inr ts" for ts
    by (simp add: loop_body_def buy_branch_def sell_branch_def f101)
  show ?thesis
    by (simp add: backtest_trades_unfold [OF cols] len step100 step101)
qed



section \<open>Properties of the simulated trades\<close>

lemma loop_body_outcome:
  assumes run: "loop_body df atrs use_atr i acc = Inr ts'"
  shows "ts' = acc \<or>
    (\<exists>t r. ts' = acc @ [t] \<and> r \<in> set (future_data df i)
       \<and> entry_time t = time (df ! i) \<and> entry_price t = close (df ! i)
       \<and> exit_time t = time r \<and> exit_price t = close r
       \<and> (case trade_type t of
            BUY \<Rightarrow>
              profit t = close r - close (df ! i)
              \<and> sl t = (if use_atr \<and> gt0 (atrs ! i)
                         then close (df ! i) - 1.0 * the (atrs ! i) else close (df ! i) - 5)
              \<and> tp t = (if use_atr \<and> gt0 (atrs ! i)
                         then close (df ! i) + 2.0 * the (atrs ! i) else close (df ! i) + 10)
          | SELL \<Rightarrow>
              profit t = close (df ! i) - close r
              \<and> sl t = (if use_atr \<and> gt0 (atrs ! i)
                         then close (df ! i) + 2.0 * the (atrs ! i) else close (df ! i) + 10)
              \<and> tp t = (if use_atr \<and> gt0 (atrs ! i)
                         then close (df ! i) - 4.0 * the (atrs ! i) else close (df ! i) - 20)))"
proof (cases "is_bullish_hammer (df ! i)")
  case True
  with run have b: "buy_branch df atrs use_atr i acc = Inr ts'" by (simp add: loop_body_bull)
  note c = buy_branch_cases [OF b refl refl refl]
  show ?thesis
  proof (cases "find (\<lambda>r. high r \<ge> (if use_atr \<and> gt0 (atrs ! i)
                 then close (df ! i) + 2.0 * the (atrs ! i) else close (df ! i) + 10)
               \<or> low r \<le> (if use_atr \<and> gt0 (atrs ! i)
                 then close (df ! i) - 1.0 * the (atrs ! i) else close (df ! i) - 5))
             (future_data df i)")
    case None
    with c show ?thesis by simp
  next
    case (Some r)
    have m: "r \<in> set (future_data df i)" using find_Some_member [OF Some] by simp
    from c Some obtain t where "ts' = acc @ [t]" "trade_type t = BUY"
      "entry_time t = time (df ! i)" "entry_price t = close (df ! i)"
      "exit_time t = time r" "exit_price t = close r" "profit t = close r - close (df ! i)"
      "sl t = (if use_atr \<and> gt0 (atrs ! i)
                 then close (df ! i) - 1.0 * the (atrs ! i) else close (df ! i) - 5)"
      "tp t = (if use_atr \<and> gt0 (atrs ! i)
                 then close (df ! i) + 2.0 * the (atrs ! i) else close (df ! i) + 10)"
      by auto
    with m show ?thesis by (intro disjI2 exI [of _ t] exI [of _ r]) simp
  qed
next
  case nb: False
  show ?thesis
  proof (cases "is_bearish_hammer (df ! i)")
    case False
    with nb run show ?thesis by (simp add: loop_body_none)
  next
    case True
    with nb run have b: "sell_branch df atrs use_atr i acc = Inr ts'"
      by (simp add: loop_body_bear)
    note c = sell_branch_cases [OF b refl refl refl]
    show ?thesis
    proof (cases "find (\<lambda>r. low r \<le> (if use_atr \<and> gt0 (atrs ! i)
                   then close (df ! i) - 4.0 * the (atrs ! i) else close (df ! i) - 20)
                 \<or> high r \<ge> (if use_atr \<and> gt0 (atrs ! i)
                   then close (df ! i) + 2.0 * the (atrs ! i) else close (df ! i) + 10))
               (future_data df i)")
      case None
      with c show ?thesis by simp
    next
      case (Some r)
      have m: "r \<in> set (future_data df i)" using find_Some_member [OF Some] by simp
      from c Some obtain t where "ts' = acc @ [t]" "trade_type t = SELL"
        "entry_time t = time (df ! i)" "entry_price t = close (df ! i)"
        "exit_time t = time r" "exit_price t = close r" "profit t = close (df ! i) - close r"
        "sl t = (if use_atr \<and> gt0 (atrs ! i)
                   then close (df ! i) + 2.0 * the (atrs ! i) else close (df ! i) + 10)"
        "tp t = (if use_atr \<and> gt0 (atrs ! i)
                   then close (df ! i) - 4.0 * the (atrs ! i) else close (df ! i) - 20)"
        by auto
      with m show ?thesis by (intro disjI2 exI [of _ t] exI [of _ r]) simp
    qed
  qed
qed

text \<open>
  Claim C10. In \<open>backtest_vectorized\<close> (the price-based profit) every trade takes its exit
  price from the close of the exit row, one of the rows scanned after the signal, and its
  profit is the signed difference to the entry price whatever level was touched: exit
  close minus entry for a Buy, entry minus exit close for a Sell, with no dependence on
  \<open>hit_tp\<close>. So a trade recorded as a take-profit hit can lose: on \<open>tp_loss_frame\<close> the
  backtest yields one trade with \<open>hit_tp\<close> true and profit \<open>- 0.5\<close>, not the distance to its
  take-profit level.
\<close>

theorem profit_from_exit_close:
  "(loop_body df atrs use_atr i acc = Inr ts' \<longrightarrow>
      ts' = acc \<or>
      (\<exists>t r. ts' = acc @ [t] \<and> r \<in> set (future_data df i)
         \<and> entry_price t = close (df ! i) \<and> exit_time t = time r \<and> exit_price t = close r
         \<and> profit t = (case trade_type t of
                          BUY \<Rightarrow> exit_price t - entry_price t
                        | SELL \<Rightarrow> entry_price t - exit_price t)))
   \<and> (\<exists>t. backtest_trades tp_loss_frame True = Inr [t] \<and> hit_tp t \<and> profit t \<le> 0
          \<and> profit t \<noteq> tp t - entry_price t)"
proof (intro conjI impI)
  assume run: "loop_body df atrs use_atr i acc = Inr ts'"
  from loop_body_outcome [OF run]
  show "ts' = acc \<or>
      (\<exists>t r. ts' = acc @ [t] \<and> r \<in> set (future_data df i)
         \<and> entry_price t = close (df ! i) \<and> exit_time t = time r \<and> exit_price t = close r
         \<and> profit t = (case trade_type t of
                          BUY \<Rightarrow> exit_price t - entry_price t
                        | SELL \<Rightarrow> entry_price t - exit_price t))"
  proof
    assume "ts' = acc"
    then show ?thesis by simp
  next
    assume "\<exists>t r. ts' = acc @ [t] \<and> r \<in> set (future_data df i)
       \<and> entry_time t = time (df ! i) \<and> entry_price t = close (df ! i)
       \<and> exit_time t = time r \<and> exit_price t = close r
       \<and> (case trade_type t of
            BUY \<Rightarrow>
              profit t = close r - close (df ! i)
              \<and> sl t = (if use_atr \<and> gt0 (atrs ! i)
                         then close (df ! i) - 1.0 * the (atrs ! i) else close (df ! i) - 5)
              \<and> tp t = (if use_atr \<and> gt0 (atrs ! i)
                         then close (df ! i) + 2.0 * the (atrs ! i) else close (df ! i) + 10)
          | SELL \<Rightarrow>
              profit t = close (df ! i) - close r
              \<and> sl t = (if use_atr \<and> gt0 (atrs ! i)
                         then close (df ! i) + 2.0 * the (atrs ! i) else close (df ! i) + 10)
              \<and> tp t = (if use_atr \<and> gt0 (atrs ! i)
                         then close (df ! i) - 4.0 * the (atrs ! i) else close (df ! i) - 20))"
    then obtain t r where tr: "ts' = acc @ [t]" "r \<in> set (future_data df i)"
      "entry_price t = close (df ! i)" "exit_time t = time r" "exit_price t = close r"
      and p: "case trade_type t of
            BUY \<Rightarrow>
              profit t = close r - close (df ! i)
              \<and> sl t = (if use_atr \<and> gt0 (atrs ! i)
                         then close (df ! i) - 1.0 * the (atrs ! i) else close (df ! i) - 5)
              \<and> tp t = (if use_atr \<and> gt0 (atrs ! i)
                         then close (df ! i) + 2.0 * the (atrs ! i) else close (df ! i) + 10)
          | SELL \<Rightarrow>
              profit t = close (df ! i) - close r
              \<and> sl t = (if use_atr \<and> gt0 (atrs ! i)
                         then close (df ! i) + 2.0 * the (atrs ! i) else close (df ! i) + 10)
              \<and> tp t = (if use_atr \<and> gt0 (atrs ! i)
                         then close (df ! i) - 4.0 * the (atrs ! i) else close (df ! i) - 20)"
      by blast
    have "profit t = (case trade_type t of BUY \<Rightarrow> exit_price t - entry_price t
                        | SELL \<Rightarrow> entry_price t - exit_price t)"
      using p tr(3,5) by (cases "trade_type t") simp_all
    with tr show ?thesis by blast
  qed
next
  show "\<exists>t. backtest_trades tp_loss_frame True = Inr [t] \<and> hit_tp t \<and> profit t \<le> 0
          \<and> profit t \<noteq> tp t - entry_price t"
    by (simp add: tp_loss_trades)
qed

theorem profit_from_exit_close_witness:
  "loop_body both_touch_buy [Some 2, None, None] True 0 [] =
     Inr [\<lparr>entry_time = 0, entry_price = 105, exit_time = 2, exit_price = 104,
            trade_type = BUY, profit = - 1, profit_pct = Some (- (20 / 21)), hit_tp = True,
            sl = 103, tp = 109, candles_held = 2\<rparr>]
   \<and> (\<exists>t r. [\<lparr>entry_time = 0, entry_price = 105, exit_time = 2, exit_price = 104,
            trade_type = BUY, profit = - 1, profit_pct = Some (- (20 / 21)), hit_tp = True,
            sl = 103, tp = 109, candles_held = 2\<rparr>] = [] @ [t]
         \<and> r \<in> set (future_data both_touch_buy 0)
         \<and> exit_price t = close r \<and> profit t = exit_price t - entry_price t
         \<and> hit_tp t \<and> profit t \<le> 0)"
proof -
  let ?t = "\<lparr>entry_time = 0, entry_price = 105, exit_time = 2, exit_price = 104,
            trade_type = BUY, profit = - 1, profit_pct = Some (- (20 / 21)), hit_tp = True,
            sl = 103, tp = 109, candles_held = 2\<rparr>"
  from profit_from_exit_close [of both_touch_buy "[Some 2, None, None]" True 0 "[]" "[?t]"]
    btb_run
  obtain t r where "[?t] = [] @ [t]" "r \<in> set (future_data both_touch_buy 0)"
    "exit_price t = close r"
    by auto
  then show ?thesis using btb_run by auto
qed

section \<open>Signals without a positive ATR\<close>

lemma loop_body_trade_cases:
  assumes "loop_body df atrs use_atr i acc = Inr ts'"
  obtains (no_trade) "ts' = acc"
  | (buy) t r where "ts' = acc @ [t]" "r \<in> set (future_data df i)" "trade_type t = BUY"
      "entry_time t = time (df ! i)" "entry_price t = close (df ! i)"
      "exit_time t = time r" "exit_price t = close r"
      "profit t = close r - close (df ! i)"
      "sl t = (if use_atr \<and> gt0 (atrs ! i)
               then close (df ! i) - 1.0 * the (atrs ! i) else close (df ! i) - 5)"
      "tp t = (if use_atr \<and> gt0 (atrs ! i)
               then close (df ! i) + 2.0 * the (atrs ! i) else close (df ! i) + 10)"
  | (sell) t r where "ts' = acc @ [t]" "r \<in> set (future_data df i)" "trade_type t = SELL"
      "entry_time t = time (df ! i)" "entry_price t = close (df ! i)"
      "exit_time t = time r" "exit_price t = close r"
      "profit t = close (df ! i) - close r"
      "sl t = (if use_atr \<and> gt0 (atrs ! i)
               then close (df ! i) + 2.0 * the (atrs ! i) else close (df ! i) + 10)"
      "tp t = (if use_atr \<and> gt0 (atrs ! i)
               then close (df ! i) - 4.0 * the (atrs ! i) else close (df ! i) - 20)"
  using loop_body_outcome [OF assms]
proof (elim disjE exE conjE)
  assume "ts' = acc"
  then show thesis by (rule no_trade)
next
  fix t r
  assume a: "ts' = acc @ [t]" "r \<in> set (future_data df i)"
    "entry_time t = time (df ! i)" "entry_price t = close (df ! i)"
    "exit_time t = time r" "exit_price t = close r"
  assume c: "case trade_type t of
            BUY \<Rightarrow>
              profit t = close r - close (df ! i)
              \<and> sl t = (if use_atr \<and> gt0 (atrs ! i)
                         then close (df ! i) - 1.0 * the (atrs ! i) else close (df ! i) - 5)
              \<and> tp t = (if use_atr \<and> gt0 (atrs ! i)
                         then close (df ! i) + 2.0 * the (atrs ! i) else close (df ! i) + 10)
          | SELL \<Rightarrow>
              profit t = close (df ! i) - close r
              \<and> sl t = (if use_atr \<and> gt0 (atrs ! i)
                         then close (df ! i) + 2.0 * the (atrs ! i) else close (df ! i) + 10)
              \<and> tp t = (if use_atr \<and> gt0 (atrs ! i)
                         then close (df ! i) - 4.0 * the (atrs ! i) else close (df ! i) - 20)"
  show thesis
  proof (cases "trade_type t")
    case BUY
    with c have p: "profit t = close r - close (df ! i)"
      "sl t = (if use_atr \<and> gt0 (atrs ! i)
               then close (df ! i) - 1.0 * the (atrs ! i) else close (df ! i) - 5)"
      "tp t = (if use_atr \<and> gt0 (atrs ! i)
               then close (df ! i) + 2.0 * the (atrs ! i) else close (df ! i) + 10)"
      by simp_all
    show thesis by (rule buy [OF a(1) a(2) BUY a(3) a(4) a(5) a(6) p(1) p(2) p(3)])
  next
    case SELL
    with c have p: "profit t = close (df ! i) - close r"
      "sl t = (if use_atr \<and> gt0 (atrs ! i)
               then close (df ! i) + 2.0 * the (atrs ! i) else close (df ! i) + 10)"
      "tp t = (if use_atr \<and> gt0 (atrs ! i)
               then close (df ! i) - 4.0 * the (atrs ! i) else close (df ! i) - 20)"
      by simp_all
    show thesis by (rule sell [OF a(1) a(2) SELL a(3) a(4) a(5) a(6) p(1) p(2) p(3)])
  qed
qed

lemma trades_with_params_unfold:
  "list_all (\<lambda>col. col \<in> set (columns fr)) required_cols \<Longrightarrow>
   trades_with_params fr ps =
     Inr (foldl (\<lambda>acc i. loop_body_p (rows fr) (rolling_mean 14 (tr_col (rows fr))) ps i acc) []
            [100..<length (rows fr)])"
  by (simp add: trades_with_params_def compute_emas_def ewm_mean_def calculate_atr_def)

lemma loop_body_p_skip: "\<not> gt0 (atrs ! i) \<Longrightarrow> loop_body_p df atrs ps i acc = acc"
  by (simp add: loop_body_p_def Let_def)

lemma loop_body_fallback:
  "\<not> gt0 (atrs ! i) \<Longrightarrow> loop_body df atrs use_atr i acc = loop_body df atrs False i acc"
  by (simp add: loop_body_def buy_branch_def sell_branch_def)

lemma zero_atr_round:
  "loop_body (rows zero_atr_frame) (rolling_mean 14 (tr_col (rows zero_atr_frame))) True 100 []
     = Inr [\<lparr>entry_time = 100, entry_price = 105, exit_time = 101, exit_price = 100,
            trade_type = BUY, profit = - 5, profit_pct = Some (- (100 / 21)), hit_tp = False,
            sl = 100, tp = 115, candles_held = 1\<rparr>]"
proof -
  let ?sig = "\<lparr>time = 100, open = 103, high = 100, low = 100, close = 105\<rparr>"
  let ?last = "\<lparr>time = 101, open = 105, high = 105, low = 99, close = 100\<rparr>"
  let ?rs = "rows zero_atr_frame"
  have len: "length ?rs = 102" by (simp add: zero_atr_frame_def)
  have n100: "?rs ! 100 = ?sig" and n101: "?rs ! 101 = ?last"
    by (simp_all add: zero_atr_frame_def nth_append)
  have f100: "future_data ?rs 100 = [?last]"
    by (simp add: zero_atr_frame_def future_data_def)
  have lab: "filter (\<lambda>r. time r = 101) ?rs = [?last]"
    by (simp add: zero_atr_frame_def label_not_flat)
  show ?thesis
    using get_loc_single [OF lab, of 101]
    by (simp add: loop_body_def is_bullish_hammer_def buy_branch_def n100 n101 len
        zero_atr_value f100 loc_close_single [OF lab] pct_of_def Let_def)
qed

lemma zero_atr_trades_p: "trades_with_params zero_atr_frame recommended1 = Inr []"
proof -
  let ?rs = "rows zero_atr_frame"
  let ?atrs = "rolling_mean 14 (tr_col ?rs)"
  have cols: "list_all (\<lambda>col. col \<in> set (columns zero_atr_frame)) required_cols"
    by (simp add: zero_atr_frame_def required_cols_def)
  have len: "length ?rs = 102" by (simp add: zero_atr_frame_def)
  have f101: "future_data ?rs 101 = []"
    by (simp add: zero_atr_frame_def future_data_def)
  have s100: "loop_body_p ?rs ?atrs recommended1 100 acc = acc" for acc
    by (rule loop_body_p_skip) (simp add: zero_atr_value)
  have s101: "loop_body_p ?rs ?atrs recommended1 101 acc = acc" for acc
    by (simp add: loop_body_p_def Let_def f101)
  show ?thesis
    by (simp add: trades_with_params_unfold [OF cols] len s100 s101)
qed

text \<open>
  Claim C3, as amended. \<open>atr > 0\<close> fails exactly for an ATR that is undefined or at most
  zero. In \<open>backtest_with_params\<close> a round on such a row adds no trade, whatever pattern the
  row shows. In \<open>backtest_vectorized\<close> such a row is not skipped: the round runs as it does
  with \<open>use_atr = False\<close>, with the fixed levels stop = entry - 5 and take = entry + 10 for
  a Buy, stop = entry + 10 and take = entry - 20 for a Sell, and adds the trade it finds.
\<close>

theorem nonpositive_atr_handling:
  "(\<not> gt0 a \<longleftrightarrow> a = None \<or> (\<exists>x. a = Some x \<and> x \<le> 0))
   \<and> (\<not> gt0 (atrs ! i) \<longrightarrow> loop_body_p df atrs ps i accp = accp)
   \<and> (\<not> gt0 (atrs ! i) \<longrightarrow>
        loop_body df atrs use_atr i acc = loop_body df atrs False i acc)
   \<and> (loop_body df atrs False i acc = Inr ts' \<longrightarrow>
        ts' = acc \<or>
        (\<exists>t. ts' = acc @ [t] \<and> entry_time t = time (df ! i)
           \<and> (case trade_type t of
                BUY \<Rightarrow> sl t = entry_price t - 5 \<and> tp t = entry_price t + 10
              | SELL \<Rightarrow> sl t = entry_price t + 10 \<and> tp t = entry_price t - 20)))"
proof (intro conjI impI)
  show "\<not> gt0 a \<longleftrightarrow> a = None \<or> (\<exists>x. a = Some x \<and> x \<le> 0)"
    by (cases a) (auto simp: not_less)
next
  assume "\<not> gt0 (atrs ! i)"
  then show "loop_body_p df atrs ps i accp = accp" by (rule loop_body_p_skip)
next
  assume "\<not> gt0 (atrs ! i)"
  then show "loop_body df atrs use_atr i acc = loop_body df atrs False i acc"
    by (rule loop_body_fallback)
next
  assume run: "loop_body df atrs False i acc = Inr ts'"
  then show "ts' = acc \<or>
        (\<exists>t. ts' = acc @ [t] \<and> entry_time t = time (df ! i)
           \<and> (case trade_type t of
                BUY \<Rightarrow> sl t = entry_price t - 5 \<and> tp t = entry_price t + 10
              | SELL \<Rightarrow> sl t = entry_price t + 10 \<and> tp t = entry_price t - 20))"
  proof (cases rule: loop_body_trade_cases)
    case no_trade
    then show ?thesis by simp
  next
    case (buy t r)
    then have "ts' = acc @ [t] \<and> entry_time t = time (df ! i)
           \<and> (case trade_type t of
                BUY \<Rightarrow> sl t = entry_price t - 5 \<and> tp t = entry_price t + 10
              | SELL \<Rightarrow> sl t = entry_price t + 10 \<and> tp t = entry_price t - 20)"
      by simp
    then show ?thesis by blast
  next
    case (sell t r)
    then have "ts' = acc @ [t] \<and> entry_time t = time (df ! i)
           \<and> (case trade_type t of
                BUY \<Rightarrow> sl t = entry_price t - 5 \<and> tp t = entry_price t + 10
              | SELL \<Rightarrow> sl t = entry_price t + 10 \<and> tp t = entry_price t - 20)"
      by simp
    then show ?thesis by blast
  qed
qed

theorem nonpositive_atr_handling_witness:
  "\<not> gt0 (rolling_mean 14 (tr_col (rows zero_atr_frame)) ! 100)
   \<and> loop_body_p (rows zero_atr_frame) (rolling_mean 14 (tr_col (rows zero_atr_frame)))
        recommended1 100 [] = []
   \<and> loop_body (rows zero_atr_frame) (rolling_mean 14 (tr_col (rows zero_atr_frame)))
        False 100 [] =
       Inr [\<lparr>entry_time = 100, entry_price = 105, exit_time = 101, exit_price = 100,
              trade_type = BUY, profit = - 5, profit_pct = Some (- (100 / 21)),
              hit_tp = False, sl = 100, tp = 115, candles_held = 1\<rparr>]"
proof -
  let ?rs = "rows zero_atr_frame"
  let ?atrs = "rolling_mean 14 (tr_col ?rs)"
  let ?t = "\<lparr>entry_time = 100, entry_price = 105, exit_time = 101, exit_price = 100,
              trade_type = BUY, profit = - 5, profit_pct = Some (- (100 / 21)),
              hit_tp = False, sl = 100, tp = 115, candles_held = 1\<rparr>"
  have n: "\<not> gt0 (?atrs ! 100)" by (simp add: zero_atr_value)
  note h = nonpositive_atr_handling [of "?atrs ! 100" ?atrs 100 ?rs recommended1 "[]" True "[]"
      "[?t]"]
  from h n have p: "loop_body_p ?rs ?atrs recommended1 100 [] = []" by blast
  from h n have "loop_body ?rs ?atrs True 100 [] = loop_body ?rs ?atrs False 100 []" by blast
  with zero_atr_round have f: "loop_body ?rs ?atrs False 100 [] = Inr [?t]" by simp
  from n p f show ?thesis by blast
qed

text \<open>
  Claim C3 as stated fails in \<open>backtest_vectorized\<close>: on \<open>zero_atr_frame\<close> the row at
  position 100 is a bullish hammer with ATR 0, and the backtest returns a trade entered
  at that row, with the fixed levels 100 and 115 around the entry 105.
\<close>

theorem zero_atr_trade_counterexample:
  "calculate_atr (rows zero_atr_frame) 14 = Inr (rolling_mean 14 (tr_col (rows zero_atr_frame)))
   \<and> rolling_mean 14 (tr_col (rows zero_atr_frame)) ! 100 = Some 0
   \<and> is_bullish_hammer (rows zero_atr_frame ! 100)
   \<and> time (rows zero_atr_frame ! 100) = 100
   \<and> backtest_trades zero_atr_frame True =
       Inr [\<lparr>entry_time = 100, entry_price = 105, exit_time = 101, exit_price = 100,
              trade_type = BUY, profit = - 5, profit_pct = Some (- (100 / 21)),
              hit_tp = False, sl = 100, tp = 115, candles_held = 1\<rparr>]"
proof -
  have "rows zero_atr_frame ! 100 = \<lparr>time = 100, open = 103, high = 100, low = 100, close = 105\<rparr>"
    by (simp add: zero_atr_frame_def nth_append)
  then have "is_bullish_hammer (rows zero_atr_frame ! 100)" "time (rows zero_atr_frame ! 100) = 100"
    by (simp_all add: is_bullish_hammer_def)
  moreover have "calculate_atr (rows zero_atr_frame) 14
      = Inr (rolling_mean 14 (tr_col (rows zero_atr_frame)))"
    by (simp add: calculate_atr_def)
  ultimately show ?thesis using zero_atr_value zero_atr_trades by blast
qed

section \<open>One open trade per instrument and timeframe\<close>

lemma poll_round_active:
  "has_active_position ap instrument timeframe \<Longrightarrow>
   poll_round cfg rnd instrument timeframe precision ap inp = (ap, None)"
  by (simp add: poll_round_def Let_def)

lemma has_active_after_add:
  "has_active_position (add_active_position ap instrument timeframe tt entry now)
     instrument timeframe"
  by (simp add: has_active_position_def add_active_position_def)

lemma place_buy_cases:
  "place_market_buy_with_sl_tp ap instrument timeframe entry st now = (ap', ok) \<Longrightarrow>
   (ok \<longrightarrow> has_active_position ap' instrument timeframe) \<and> (\<not> ok \<longrightarrow> ap' = ap)"
  by (auto simp: place_market_buy_with_sl_tp_def has_active_after_add split: if_splits)

lemma place_sell_cases:
  "place_market_sell_with_sl_tp ap instrument timeframe entry st now = (ap', ok) \<Longrightarrow>
   (ok \<longrightarrow> has_active_position ap' instrument timeframe) \<and> (\<not> ok \<longrightarrow> ap' = ap)"
  by (auto simp: place_market_sell_with_sl_tp_def has_active_after_add split: if_splits)

lemma poll_round_cases:
  assumes "poll_round cfg rnd instrument timeframe precision ap inp = (ap', opened)"
  shows "(opened = None \<and> ap' = ap) \<or>
         (opened \<noteq> None \<and> has_active_position ap' instrument timeframe)"
proof (cases "has_active_position ap instrument timeframe")
  case True
  with assms show ?thesis by (simp add: poll_round_active)
next
  case na: False
  let ?last = "last_row inp"
  let ?entry = "close (candle_of ?last)"
  show ?thesis
  proof (cases "is_bearish_hammer_bot cfg (candle_of ?last) \<and> is_downtrend ?last")
    case True
    obtain a b c d where lv:
      "calculate_dynamic_sl_tp cfg rnd ?entry (atr_value inp) precision SELL = (a, b, c, d)"
      by (cases "calculate_dynamic_sl_tp cfg rnd ?entry (atr_value inp) precision SELL") auto
    obtain p ok where pl:
      "place_market_sell_with_sl_tp ap instrument timeframe ?entry (status_code inp) (clock inp)
         = (p, ok)"
      by (cases "place_market_sell_with_sl_tp ap instrument timeframe ?entry (status_code inp)
            (clock inp)") auto
    from na True lv pl assms have
      "(ap', opened) = (if a \<le> ?entry \<and> b < ?entry then (p, if ok then Some SELL else None)
                        else (ap, None))"
      by (simp add: poll_round_def Let_def cong: if_cong)
    with place_sell_cases [OF pl] show ?thesis by (auto split: if_splits)
  next
    case False
    then have nbear:
      "(is_bearish_hammer_bot cfg (candle_of ?last) \<and> is_downtrend ?last) = False"
      by simp
    show ?thesis
    proof (cases "is_bullish_hammer_bot cfg (candle_of ?last) \<and> is_uptrend ?last")
      case True
      then have bull:
        "(is_bullish_hammer_bot cfg (candle_of ?last) \<and> is_uptrend ?last) = True"
        by simp
      obtain a b c d where lv:
        "calculate_dynamic_sl_tp cfg rnd ?entry (atr_value inp) precision BUY = (a, b, c, d)"
        by (cases "calculate_dynamic_sl_tp cfg rnd ?entry (atr_value inp) precision BUY") auto
      obtain p ok where pl:
        "place_market_buy_with_sl_tp ap instrument timeframe ?entry (status_code inp) (clock inp)
           = (p, ok)"
        by (cases "place_market_buy_with_sl_tp ap instrument timeframe ?entry (status_code inp)
              (clock inp)") auto
      from na lv pl assms have
        "(ap', opened) = (if a < ?entry \<and> b > ?entry then (p, if ok then Some BUY else None)
                          else (ap, None))"
        by (simp add: poll_round_def Let_def nbear bull cong: if_cong)
      with place_buy_cases [OF pl] show ?thesis by (auto split: if_splits)
    next
      case False
      then have "(is_bullish_hammer_bot cfg (candle_of ?last) \<and> is_uptrend ?last) = False"
        by simp
      with assms na show ?thesis by (simp add: poll_round_def Let_def nbear)
    qed
  qed
qed

lemma live_run_active:
  "has_active_position ap instrument timeframe \<Longrightarrow>
   live_run cfg rnd instrument timeframe precision ap inps = (ap, [])"
  by (induction inps) (simp_all add: poll_round_active)

lemma live_run_at_most_one:
  "length (snd (live_run cfg rnd instrument timeframe precision ap inps)) \<le> 1"
proof (induction inps arbitrary: ap)
  case Nil
  then show ?case by simp
next
  case (Cons inp inps)
  obtain ap' opened where r:
    "poll_round cfg rnd instrument timeframe precision ap inp = (ap', opened)"
    by (cases "poll_round cfg rnd instrument timeframe precision ap inp") auto
  from poll_round_cases [OF r] show ?case
  proof
    assume "opened = None \<and> ap' = ap"
    with r Cons.IH [of ap] show ?thesis by (simp split: prod.splits)
  next
    assume "opened \<noteq> None \<and> has_active_position ap' instrument timeframe"
    with r live_run_active [of ap' instrument timeframe cfg rnd precision inps]
    show ?thesis by (auto split: prod.splits)
  qed
qed

lemma buy_branch_append:
  "buy_branch df atrs use_atr i acc = map_sum id ((@) acc) (buy_branch df atrs use_atr i [])"
  by (simp add: buy_branch_at_levels [OF refl refl refl] split: option.splits sum.splits)

lemma sell_branch_append:
  "sell_branch df atrs use_atr i acc = map_sum id ((@) acc) (sell_branch df atrs use_atr i [])"
  by (simp add: sell_branch_at_levels [OF refl refl refl] split: option.splits sum.splits)

lemma loop_body_append:
  "loop_body df atrs use_atr i acc = map_sum id ((@) acc) (loop_body df atrs use_atr i [])"
  using buy_branch_append [of df atrs use_atr i acc] sell_branch_append [of df atrs use_atr i acc]
  by (simp add: loop_body_def)

lemma loop_body_p_append:
  "loop_body_p df atrs ps i acc = acc @ loop_body_p df atrs ps i []"
  by (simp add: loop_body_p_def Let_def split: prod.splits option.splits)

lemma bull_round_opens:
  "poll_round CFG no_rounding ''BTC_USD'' ''M5'' 2 Map.empty bull_round =
     ([''BTC_USD_M5'' \<mapsto> \<lparr>pos_type = BUY, pos_entry = 105, pos_timestamp = 0\<rparr>], Some BUY)"
  by (simp add: poll_round_def Let_def bull_round_def has_active_position_def
      is_bearish_hammer_bot_def is_bullish_hammer_bot_def is_uptrend_def CFG_def
      calculate_dynamic_sl_tp_def no_rounding_def place_market_buy_with_sl_tp_def
      add_active_position_def get_position_key_def)

lemma bull_round_twice:
  "live_run CFG no_rounding ''BTC_USD'' ''M5'' 2 Map.empty [bull_round, bull_round] =
     ([''BTC_USD_M5'' \<mapsto> \<lparr>pos_type = BUY, pos_entry = 105, pos_timestamp = 0\<rparr>], [BUY])"
proof -
  have "has_active_position
      [''BTC_USD_M5'' \<mapsto> \<lparr>pos_type = BUY, pos_entry = 105, pos_timestamp = 0\<rparr>]
      ''BTC_USD'' ''M5''"
    by (simp add: has_active_position_def get_position_key_def)
  then show ?thesis by (simp add: bull_round_opens poll_round_active)
qed

text \<open>
  Claim C4, as amended. In finalBot.py, the live script with the table \<open>active_positions\<close>,
  a polling round for an instrument and timeframe whose key is in the table places no
  order and leaves the table as it is; an order the broker accepts puts the key into the table, and no round takes a key
  out, so any sequence of rounds for one key opens at most one trade. The backtests keep
  no record of open trades: what a round of their trade loops adds does not depend on
  the trades generated so far, so a later signal of the same series produces a trade
  while an earlier trade has not reached its exit.
\<close>

theorem position_gate_live_only:
  "(has_active_position ap instrument timeframe \<longrightarrow>
      poll_round cfg rnd instrument timeframe precision ap inp = (ap, None))
   \<and> (poll_round cfg rnd instrument timeframe precision ap inp = (ap', Some s) \<longrightarrow>
        has_active_position ap' instrument timeframe)
   \<and> length (snd (live_run cfg rnd instrument timeframe precision ap inps)) \<le> 1
   \<and> loop_body df atrs use_atr i acc = map_sum id ((@) acc) (loop_body df atrs use_atr i [])
   \<and> loop_body_p df atrs ps i accp = accp @ loop_body_p df atrs ps i []"
proof (intro conjI impI)
  assume "has_active_position ap instrument timeframe"
  then show "poll_round cfg rnd instrument timeframe precision ap inp = (ap, None)"
    by (rule poll_round_active)
next
  assume "poll_round cfg rnd instrument timeframe precision ap inp = (ap', Some s)"
  from poll_round_cases [OF this] show "has_active_position ap' instrument timeframe"
    by simp
next
  show "length (snd (live_run cfg rnd instrument timeframe precision ap inps)) \<le> 1"
    by (rule live_run_at_most_one)
next
  show "loop_body df atrs use_atr i acc
          = map_sum id ((@) acc) (loop_body df atrs use_atr i [])"
    by (rule loop_body_append)
next
  show "loop_body_p df atrs ps i accp = accp @ loop_body_p df atrs ps i []"
    by (rule loop_body_p_append)
qed

theorem position_gate_live_only_witness:
  "has_active_position
     [''BTC_USD_M5'' \<mapsto> \<lparr>pos_type = BUY, pos_entry = 105, pos_timestamp = 0\<rparr>]
     ''BTC_USD'' ''M5''
   \<and> poll_round CFG no_rounding ''BTC_USD'' ''M5'' 2
        [''BTC_USD_M5'' \<mapsto> \<lparr>pos_type = BUY, pos_entry = 105, pos_timestamp = 0\<rparr>]
        bull_round
      = ([''BTC_USD_M5'' \<mapsto> \<lparr>pos_type = BUY, pos_entry = 105, pos_timestamp = 0\<rparr>], None)
   \<and> poll_round CFG no_rounding ''BTC_USD'' ''M5'' 2 Map.empty bull_round =
       ([''BTC_USD_M5'' \<mapsto> \<lparr>pos_type = BUY, pos_entry = 105, pos_timestamp = 0\<rparr>],
        Some BUY)
   \<and> snd (live_run CFG no_rounding ''BTC_USD'' ''M5'' 2 Map.empty [bull_round, bull_round])
       = [BUY]"
proof -
  let ?p = "[''BTC_USD_M5'' \<mapsto> \<lparr>pos_type = BUY, pos_entry = 105, pos_timestamp = 0\<rparr>]"
  note h = position_gate_live_only [of Map.empty "''BTC_USD''" "''M5''" CFG no_rounding 2
      bull_round ?p BUY]
  from h bull_round_opens have a: "has_active_position ?p ''BTC_USD'' ''M5''" by blast
  note g = position_gate_live_only [of ?p "''BTC_USD''" "''M5''" CFG no_rounding 2 bull_round]
  from g a have "poll_round CFG no_rounding ''BTC_USD'' ''M5'' 2 ?p bull_round = (?p, None)"
    by blast
  with a bull_round_opens bull_round_twice show ?thesis by simp
qed

text \<open>
  Claim C4 as stated fails in \<open>backtest_vectorized\<close>: on \<open>overlap_frame\<close> the trade entered
  at label 100 leaves at label 102, and a second trade of the same series is entered at
  label 101.
\<close>

theorem overlapping_trades_counterexample:
  "backtest_trades overlap_frame True =
     Inr [\<lparr>entry_time = 100, entry_price = 105, exit_time = 102, exit_price = 110,
            trade_type = BUY, profit = 5, profit_pct = Some (100 / 21), hit_tp = True,
            sl = 103, tp = 109, candles_held = 2\<rparr>,
          \<lparr>entry_time = 101, entry_price = 106, exit_time = 102, exit_price = 110,
            trade_type = BUY, profit = 4, profit_pct = Some (200 / 53), hit_tp = True,
            sl = 104, tp = 110, candles_held = 1\<rparr>]
   \<and> entry_time (projr (backtest_trades overlap_frame True) ! 0)
       < entry_time (projr (backtest_trades overlap_frame True) ! 1)
   \<and> entry_time (projr (backtest_trades overlap_frame True) ! 1)
       < exit_time (projr (backtest_trades overlap_frame True) ! 0)"
  by (simp add: overlap_trades)

section \<open>The profit factor\<close>

lemma calc_stats_counts:
  "total_trades (calc_stats df ts) = length ts"
  "win_count (calc_stats df ts) = length (filter (\<lambda>t. profit t > 0) ts)"
  "loss_count (calc_stats df ts) = length (filter (\<lambda>t. profit t \<le> 0) ts)"
  "trades (calc_stats df ts) = ts"
  by (simp_all add: calc_stats_def Let_def)

lemma calc_stats_profit_factor:
  "profit_factor (calc_stats df ts) =
     (if length (filter (\<lambda>t. profit t \<le> 0) ts) > 0
         \<and> sum_list (map profit (filter (\<lambda>t. profit t \<le> 0) ts)) \<noteq> 0
      then sum_list (map profit (filter (\<lambda>t. profit t > 0) ts))
             / \<bar>sum_list (map profit (filter (\<lambda>t. profit t \<le> 0) ts))\<bar>
      else 0)"
  by (simp add: calc_stats_def Let_def)

lemma profit_factor_no_losers:
  assumes "list_all (\<lambda>t. profit t > 0) ts"
  shows "profit_factor (calc_stats df ts) = 0"
proof -
  have "filter (\<lambda>t. profit t \<le> 0) ts = []"
    using assms by (induction ts) (auto simp: not_le)
  then show ?thesis by (simp add: calc_stats_profit_factor)
qed

lemma profit_factor_no_winners:
  assumes "list_all (\<lambda>t. profit t \<le> 0) ts"
  shows "profit_factor (calc_stats df ts) = 0"
proof -
  have "filter (\<lambda>t. profit t > 0) ts = []"
    using assms by (induction ts) (auto simp: not_less)
  then show ?thesis by (simp add: calc_stats_profit_factor)
qed

lemma sum_list_pos_profit:
  "ts \<noteq> [] \<Longrightarrow> list_all (\<lambda>t. profit_p t > 0) ts \<Longrightarrow> sum_list (map profit_p ts) > 0"
proof (induction ts)
  case Nil
  then show ?case by simp
next
  case (Cons t ts)
  then show ?case by (cases ts) (auto intro: add_pos_pos)
qed

lemma sum_list_nonpos_profit:
  "list_all (\<lambda>t. profit_p t \<le> 0) ts \<Longrightarrow> sum_list (map profit_p ts) \<le> 0"
  by (induction ts) auto

lemma profit_factor_p_no_losers:
  assumes "ts \<noteq> []" "list_all (\<lambda>t. profit_p t > 0) ts"
  shows "profit_factor_p (calc_stats_p ts) = PInf"
proof -
  have "filter (\<lambda>t. profit_p t \<le> 0) ts = []"
    using assms(2) by (induction ts) (auto simp: not_le)
  with assms sum_list_pos_profit [OF assms] show ?thesis
    by (simp add: calc_stats_p_def Let_def)
qed

lemma profit_factor_p_no_winners:
  assumes "list_all (\<lambda>t. profit_p t \<le> 0) ts"
  shows "profit_factor_p (calc_stats_p ts) = Fin 0"
proof -
  have "filter (\<lambda>t. profit_p t > 0) ts = []"
    using assms by (induction ts) (auto simp: not_less)
  with sum_list_nonpos_profit [OF assms] show ?thesis
    by (simp add: calc_stats_p_def Let_def)
qed

lemma winner_trades_p:
  "trades_with_params winner_frame recommended1 =
     Inr [\<lparr>type_p = BUY, entry_p = 105, profit_p = 3, hit_tp_p = True\<rparr>]"
proof -
  let ?last = "\<lparr>time = 101, open = 105, high = 110, low = 105, close = 110\<rparr>"
  let ?rs = "rows winner_frame"
  let ?atrs = "rolling_mean 14 (tr_col ?rs)"
  have cols: "list_all (\<lambda>col. col \<in> set (columns winner_frame)) required_cols"
    by (simp add: winner_frame_def required_cols_def)
  have len: "length ?rs = 102" by (simp add: winner_frame_def)
  have n100: "?rs ! 100 = signal_candle"
    by (simp add: winner_frame_def nth_append)
  have f100: "future_data ?rs 100 = [?last]" and f101: "future_data ?rs 101 = []"
    by (simp_all add: winner_frame_def future_data_def)
  have atr: "?atrs ! 100 = Some 2"
    using signal_after_calm_atr [of "[?last]"] by (simp add: winner_frame_def)
  have s100: "loop_body_p ?rs ?atrs recommended1 100 [] =
      [\<lparr>type_p = BUY, entry_p = 105, profit_p = 3, hit_tp_p = True\<rparr>]"
    by (simp add: loop_body_p_def Let_def n100 is_bullish_hammer_p_def signal_candle_def atr
        f100 recommended1_def)
  have s101: "loop_body_p ?rs ?atrs recommended1 101 acc = acc" for acc
    by (simp add: loop_body_p_def Let_def f101)
  show ?thesis
    by (simp add: trades_with_params_unfold [OF cols] len s100 s101)
qed

text \<open>
  Claim C5 on \<open>winner_frame\<close>, a frame whose only trade wins. \<open>backtest_vectorized\<close> reports
  one trade, one win, no loss and a profit factor of 0; \<open>backtest_with_params\<close> reports
  for the same frame one winner, no loser and an infinite profit factor.
\<close>

theorem all_winners_profit_factor:
  "map_sum id (map_option (\<lambda>st. (total_trades st, win_count st, loss_count st,
       profit_factor st))) (backtest_vectorized winner_frame True) = Inr (Some (1, 1, 0, 0))
   \<and> map_sum id (\<lambda>st. (total_trades_p st, winners_p st, losers_p st, profit_factor_p st))
       (backtest_with_params winner_frame recommended1) = Inr (1, Some 1, Some 0, PInf)"
  by (simp add: backtest_vectorized_def winner_trades calc_stats_counts
      calc_stats_profit_factor backtest_with_params_def winner_trades_p calc_stats_p_def)

section \<open>Input validation\<close>














section \<open>Signals on well-formed candles\<close>

lemma true_range_nonneg: "0 < k \<Longrightarrow> 0 \<le> true_range_spec df k"
  by (simp add: true_range_spec_def le_max_iff_disj)

lemma true_range_signal_pos:
  assumes "candle_invariant_spec (df ! i)"
    and "is_bullish_hammer (df ! i) \<or> is_bearish_hammer (df ! i)"
  shows "0 < true_range_spec df i"
proof -
  have "open (df ! i) \<noteq> close (df ! i)"
    using assms(2) by (auto simp: is_bullish_hammer_def is_bearish_hammer_def split: if_splits)
  with assms(1) have "0 < high (df ! i) - low (df ! i)"
    by (auto simp: candle_invariant_spec_def min_def max_def split: if_splits)
  then show ?thesis by (cases "i = 0") (simp_all add: true_range_spec_def less_max_iff_disj)
qed

lemma signal_atr_positive:
  assumes "i < length df" "14 \<le> i" "candle_invariant_spec (df ! i)"
    and "is_bullish_hammer (df ! i) \<or> is_bearish_hammer (df ! i)"
  shows "gt0 (rolling_mean 14 (tr_col df) ! i)"
proof -
  have split: "[i + 1 - 14..<i + 1] = [i - 13..<i] @ [i]"
    using assms(2) by (simp add: Suc_diff_le)
  have "0 \<le> sum_list (map (true_range_spec df) [i - 13..<i])"
  proof (rule sum_list_nonneg)
    fix x
    assume "x \<in> set (map (true_range_spec df) [i - 13..<i])"
    then obtain k where "x = true_range_spec df k" "i - 13 \<le> k" by auto
    with assms(2) show "0 \<le> x" by (simp add: true_range_nonneg)
  qed
  with true_range_signal_pos [OF assms(3,4)]
  have "0 < sum_list (map (true_range_spec df) [i + 1 - 14..<i + 1])"
    unfolding split by simp
  then show ?thesis using atr_nth [OF assms(1), of 14] assms(2) by simp
qed

end
